theory Spec2Isabelle
  imports Complex_Main "HOL-Library.Char_ord" "HOL-Library.List_Lexorder"
begin

section \<open>Strings and JavaScript values\<close>

text \<open>
  A JavaScript string is modelled as a \<open>string\<close>: a list of code units below 256
  (the Latin-1 range, which holds every character the schemas of the repository accept in
  a username or an email). \<open>String.prototype.trim\<close> removes the white space and line
  terminators of that range from both ends; \<open>String.prototype.toLowerCase\<close> maps the
  upper-case letters of that range (A-Z and the accented capitals 192-222 but the
  multiplication sign 215) to their lower-case partners, 32 code units above (bit 5 of
  the code unit, which is clear in both ranges, is set).
\<close>

definition isWhiteSpace :: "char \<Rightarrow> bool" where
  "isWhiteSpace c = ((of_char c :: nat) \<in> {9, 10, 11, 12, 13, 32, 160})"

definition trim :: "string \<Rightarrow> string" where
  "trim s = rev (dropWhile isWhiteSpace (rev (dropWhile isWhiteSpace s)))"

definition toLowerChar :: "char \<Rightarrow> char" where
  "toLowerChar c =
     (let n = (of_char c :: nat)
      in if (65 \<le> n \<and> n \<le> 90) \<or> (192 \<le> n \<and> n \<le> 222 \<and> n \<noteq> 215)
         then (case c of Char b0 b1 b2 b3 b4 b5 b6 b7 \<Rightarrow> Char b0 b1 b2 b3 b4 True b6 b7)
         else c)"

definition toLowerCase :: "string \<Rightarrow> string" where
  "toLowerCase s = map toLowerChar s"

text \<open>
  The values a property of a plain object holds in this repository. \<open>JUndefined\<close> is
  what reading a property that the object does not have gives; \<open>JNull\<close> is \<open>null\<close>.
  A plain object is the list of its own properties in the order of the object literal.
\<close>

datatype jsval = JUndefined | JNull | JString string | JBoolean bool | JDate nat

type_synonym jsobj = "(string \<times> jsval) list"

text \<open>The nullish coalescing operator \<open>a ?? b\<close>.\<close>

definition nullish :: "jsval \<Rightarrow> jsval \<Rightarrow> jsval" where
  "nullish a b = (if a = JUndefined \<or> a = JNull then b else a)"

text \<open>Reading a property: \<open>obj.key\<close>.\<close>

definition prop_of :: "jsobj \<Rightarrow> string \<Rightarrow> jsval" where
  "prop_of obj k = (case map_of obj k of None \<Rightarrow> JUndefined | Some v \<Rightarrow> v)"

text \<open>\<open>Object.keys(obj)\<close>.\<close>

definition Object_keys :: "jsobj \<Rightarrow> string list" where
  "Object_keys obj = map fst obj"

section \<open>The two collections\<close>

text \<open>
  \<open>AuthUser\<close> (the credential collection) and \<open>User\<close> (the profile collection) are
  mongoose models. A document of \<open>AuthUser\<close> holds the fields that \<open>create\<close> writes and
  \<open>normalize\<close> reads, its \<open>_id\<close> and the two timestamps the store maintains; a document
  of \<open>User\<close> holds the fields \<open>create\<close> writes. An \<open>ObjectId\<close> is kept in its
  string form.
\<close>

type_synonym ObjectId = string

record AuthUserDoc =
  a_id :: ObjectId
  a_username :: string
  a_email :: string
  a_password :: string
  a_role :: string
  a_status :: string
  a_isVerified :: bool
  a_refreshToken :: "string option"
  a_createdAt :: nat
  a_updatedAt :: nat

record SocialLinks =
  twitter :: "string option"
  linkedin :: "string option"
  github :: "string option"
  website :: "string option"

record Preferences =
  emailNotifications :: bool
  marketingUpdates :: bool
  twoFactorAuth :: bool

record UserDoc =
  u_id :: ObjectId
  fullName :: string
  avatar :: "string option"
  bio :: string
  socialLinks :: SocialLinks
  followers :: "ObjectId list"
  following :: "ObjectId list"
  preferences :: Preferences

record Store =
  authUsers :: "AuthUserDoc list"
  profiles :: "UserDoc list"

text \<open>
  The calls the repository makes on the store, the errors such a call throws, and what
  the repository does that a caller can observe besides its result: the calls themselves
  and the lines it writes with \<open>logger.error\<close> (the message, without the mark it
  starts with, and the error caught).
\<close>

datatype StoreOp =
  StartSession | AuthUserCreate | UserCreate | CommitTransaction | AbortTransaction
  | Find | CountDocuments | FindOne | FindById | FindByIdAndUpdate | FindByIdAndDelete

datatype StoreError =
  Unavailable StoreOp | DuplicateKey string | CastError string | BadValue string
  | InvalidRegex string | TransactionError string

datatype Effect = Call StoreOp | LogError string StoreError

text \<open>An \<open>async\<close> method ends with a promise that resolves to a value or rejects.\<close>

datatype 'a Outcome = Resolved 'a | Rejected StoreError

text \<open>
  What the store and its driver decide and the repository does not: which calls fail
  because the store cannot be reached (\<open>unavailable\<close>), the \<open>_id\<close> the driver
  generates for the next inserted credential, the time, the \<open>ObjectId\<close> constructor on
  strings (\<open>None\<close> where it throws; \<open>mongoose.Types.ObjectId.isValid\<close> is true
  exactly where it does not), the regular expression engine behind \<open>$regex\<close> with
  option \<open>i\<close> (\<open>None\<close> for a pattern it rejects), and, for the two calls that
  \<open>findAll\<close> makes at once, whether the rejection of \<open>countDocuments\<close> comes before
  that of \<open>find\<close> when both reject.
\<close>

record Env =
  unavailable :: "StoreOp \<Rightarrow> bool"
  newObjectId :: ObjectId
  clock :: nat
  toObjectId :: "string \<Rightarrow> ObjectId option"
  compileRegex :: "string \<Rightarrow> (string \<Rightarrow> bool) option"
  countRejectsFirst :: bool

definition ObjectId_isValid :: "Env \<Rightarrow> string \<Rightarrow> bool" where
  "ObjectId_isValid env s = (toObjectId env s \<noteq> None)"

section \<open>The domain entity\<close>

text \<open>
  \<open>IAuthEntity\<close> as \<open>create\<close> receives it. What \<open>normalize\<close> returns has the same
  TypeScript type, but at run time its properties are whatever the document read from
  the store holds, so it is modelled as a plain object.
\<close>

record IAuthEntity =
  e_id :: string
  e_username :: string
  e_email :: string
  e_password :: string
  e_role :: string
  e_status :: string
  e_isVerified :: bool
  e_refreshToken :: "string option"
  e_createdAt :: nat
  e_updatedAt :: nat

text \<open>
  A document as the repository reads it (\<open>.lean()\<close>, or the hydrated document
  \<open>create\<close> gets back): the \<open>_id\<close> and one value per path, \<open>JUndefined\<close> for a path
  that a projection left out.
\<close>

record LeanDoc =
  l_id :: ObjectId
  l_username :: jsval
  l_email :: jsval
  l_password :: jsval
  l_role :: jsval
  l_status :: jsval
  l_isVerified :: jsval
  l_refreshToken :: jsval
  l_createdAt :: jsval
  l_updatedAt :: jsval

definition lean :: "AuthUserDoc \<Rightarrow> LeanDoc" where
  "lean d =
     \<lparr> l_id = a_id d,
       l_username = JString (a_username d),
       l_email = JString (a_email d),
       l_password = JString (a_password d),
       l_role = JString (a_role d),
       l_status = JString (a_status d),
       l_isVerified = JBoolean (a_isVerified d),
       l_refreshToken = (case a_refreshToken d of None \<Rightarrow> JNull | Some t \<Rightarrow> JString t),
       l_createdAt = JDate (a_createdAt d),
       l_updatedAt = JDate (a_updatedAt d) \<rparr>"

text \<open>\<open>AuthRepository.normalize\<close>: the object literal, property by property.\<close>

definition normalize :: "LeanDoc \<Rightarrow> jsobj" where
  "normalize user =
     [ (''id'', JString (l_id user)),
       (''username'', l_username user),
       (''email'', l_email user),
       (''password'', l_password user),
       (''role'', l_role user),
       (''status'', l_status user),
       (''isVerified'', l_isVerified user),
       (''refreshToken'', nullish (l_refreshToken user) JNull),
       (''createdAt'', l_createdAt user),
       (''updatedAt'', l_updatedAt user) ]"

section \<open>Creating an account\<close>

text \<open>
  Modelled from the spec: the schema of the collection (\<open>auth.model\<close>) is not among
  the sources; the spec has \<open>username\<close> and \<open>email\<close> unique at the store boundary
  and the two timestamps kept by the store. This is
  \<open>AuthUser.create([...], {session})\<close> with the fields \<open>create\<close> passes
  (\<open>refreshToken\<close> is \<open>data.refreshToken ?? null\<close>): the insert fails when the store
  cannot be reached or a unique key is taken; otherwise the document gets the generated
  \<open>_id\<close> and the current time.
\<close>

definition AuthUser_create :: "Env \<Rightarrow> Store \<Rightarrow> IAuthEntity \<Rightarrow> StoreError + (AuthUserDoc \<times> Store)" where
  "AuthUser_create env st d =
     (if unavailable env AuthUserCreate then Inl (Unavailable AuthUserCreate)
      else if list_ex (\<lambda>x. a_id x = newObjectId env) (authUsers st) then Inl (DuplicateKey ''_id'')
      else if list_ex (\<lambda>x. a_username x = e_username d) (authUsers st) then Inl (DuplicateKey ''username'')
      else if list_ex (\<lambda>x. a_email x = e_email d) (authUsers st) then Inl (DuplicateKey ''email'')
      else
        let doc = \<lparr> a_id = newObjectId env,
                    a_username = e_username d,
                    a_email = e_email d,
                    a_password = e_password d,
                    a_role = e_role d,
                    a_status = e_status d,
                    a_isVerified = e_isVerified d,
                    a_refreshToken = e_refreshToken d,
                    a_createdAt = clock env,
                    a_updatedAt = clock env \<rparr>
        in Inr (doc, st\<lparr>authUsers := authUsers st @ [doc]\<rparr>))"

text \<open>The profile \<open>create\<close> writes for a credential.\<close>

definition newProfile :: "AuthUserDoc \<Rightarrow> IAuthEntity \<Rightarrow> UserDoc" where
  "newProfile auth d =
     \<lparr> u_id = a_id auth,
       fullName = e_username d,
       avatar = None,
       bio = [],
       socialLinks = \<lparr> twitter = None, linkedin = None, github = None, website = None \<rparr>,
       followers = [],
       following = [],
       preferences = \<lparr> emailNotifications = True, marketingUpdates = False,
                       twoFactorAuth = False \<rparr> \<rparr>"

text \<open>\<open>User.create([...], {session})\<close>: the \<open>_id\<close> is the only key of a profile.\<close>

definition User_create :: "Env \<Rightarrow> Store \<Rightarrow> UserDoc \<Rightarrow> StoreError + Store" where
  "User_create env st p =
     (if unavailable env UserCreate then Inl (Unavailable UserCreate)
      else if list_ex (\<lambda>x. u_id x = u_id p) (profiles st) then Inl (DuplicateKey ''_id'')
      else Inr (st\<lparr>profiles := profiles st @ [p]\<rparr>))"

text \<open>
  The \<open>catch\<close> block of \<open>create\<close> after a failed insert: \<open>abortTransaction\<close> is
  called (the driver does not throw when the abort command itself fails), so the store
  is the one the call started from (\<open>st0\<close>); then the error is logged and \<open>null\<close>
  returned.
\<close>

definition create_catch :: "Store \<Rightarrow> Effect list \<Rightarrow> StoreError
    \<Rightarrow> jsobj option Outcome \<times> Store \<times> Effect list" where
  "create_catch st0 sofar err =
     (Resolved None, st0,
      sofar @ [Call AbortTransaction,
              LogError ''Failed to create auth + user transaction'' err])"

text \<open>
  \<open>AuthRepository.create\<close>. \<open>mongoose.startSession()\<close> is outside the \<open>try\<close>: when
  it throws, the promise rejects. The writes of the session reach the store when
  \<open>commitTransaction\<close> succeeds, and never otherwise. When \<open>commitTransaction\<close>
  throws, the \<open>catch\<close> block calls \<open>abortTransaction\<close>, which the driver refuses
  after a commit was attempted: that error is thrown inside the \<open>catch\<close> block, so the
  promise rejects with it and nothing is logged.
\<close>

definition create :: "Env \<Rightarrow> Store \<Rightarrow> IAuthEntity \<Rightarrow> jsobj option Outcome \<times> Store \<times> Effect list" where
  "create env st d =
     (if unavailable env StartSession
      then (Rejected (Unavailable StartSession), st, [Call StartSession])
      else
        case AuthUser_create env st d of
          Inl err \<Rightarrow> create_catch st [Call StartSession, Call AuthUserCreate] err
        | Inr (auth, st1) \<Rightarrow>
            (case User_create env st1 (newProfile auth d) of
               Inl err \<Rightarrow>
                 create_catch st [Call StartSession, Call AuthUserCreate, Call UserCreate] err
             | Inr st2 \<Rightarrow>
                 if unavailable env CommitTransaction
                 then (Rejected
                         (TransactionError
                            ''Cannot call abortTransaction after calling commitTransaction''),
                       st,
                       [Call StartSession, Call AuthUserCreate, Call UserCreate,
                        Call CommitTransaction, Call AbortTransaction])
                 else (Resolved (Some (normalize (lean auth))), st2,
                       [Call StartSession, Call AuthUserCreate, Call UserCreate,
                        Call CommitTransaction])))"

section \<open>Looking an account up\<close>

text \<open>
  \<open>AuthUser.findOne(filter).lean()\<close>: the first document the filter matches, in
  the collection's order.
\<close>

definition AuthUser_findOne :: "Env \<Rightarrow> Store \<Rightarrow> (AuthUserDoc \<Rightarrow> bool)
    \<Rightarrow> StoreError + AuthUserDoc option" where
  "AuthUser_findOne env st matches =
     (if unavailable env FindOne then Inl (Unavailable FindOne)
      else Inr (find matches (authUsers st)))"

text \<open>\<open>user ? this.normalize(user) : null\<close>.\<close>

definition normalize_or_null :: "AuthUserDoc option \<Rightarrow> jsobj option" where
  "normalize_or_null user = (case user of None \<Rightarrow> None | Some u \<Rightarrow> Some (normalize (lean u)))"

definition findByEmail :: "Env \<Rightarrow> Store \<Rightarrow> string \<Rightarrow> jsobj option Outcome \<times> Store \<times> Effect list" where
  "findByEmail env st email =
     (case AuthUser_findOne env st (\<lambda>d. a_email d = email) of
        Inr user \<Rightarrow> (Resolved (normalize_or_null user), st, [Call FindOne])
      | Inl err \<Rightarrow>
          (Resolved None, st,
           [Call FindOne, LogError (''Failed to find user by email: '' @ email) err]))"

definition findByUsername :: "Env \<Rightarrow> Store \<Rightarrow> string \<Rightarrow> jsobj option Outcome \<times> Store \<times> Effect list" where
  "findByUsername env st username =
     (let normalized = toLowerCase (trim username)
      in case AuthUser_findOne env st (\<lambda>d. a_username d = normalized) of
           Inr user \<Rightarrow> (Resolved (normalize_or_null user), st, [Call FindOne])
         | Inl err \<Rightarrow>
             (Resolved None, st,
              [Call FindOne, LogError (''Failed to find user by username: '' @ username) err]))"

text \<open>
  \<open>AuthUser.findById(id).lean()\<close>: mongoose casts the id to an \<open>ObjectId\<close> first and
  throws a cast error for a string the constructor refuses.
\<close>

definition AuthUser_findById :: "Env \<Rightarrow> Store \<Rightarrow> string \<Rightarrow> StoreError + AuthUserDoc option" where
  "AuthUser_findById env st ident =
     (case toObjectId env ident of
        None \<Rightarrow> Inl (CastError ident)
      | Some oid \<Rightarrow>
          if unavailable env FindById then Inl (Unavailable FindById)
          else Inr (find (\<lambda>d. a_id d = oid) (authUsers st)))"

definition findById :: "Env \<Rightarrow> Store \<Rightarrow> string \<Rightarrow> jsobj option Outcome \<times> Store \<times> Effect list" where
  "findById env st ident =
     (if \<not> ObjectId_isValid env ident then (Resolved None, st, [])
      else
        case AuthUser_findById env st ident of
          Inr user \<Rightarrow> (Resolved (normalize_or_null user), st, [Call FindById])
        | Inl err \<Rightarrow>
            (Resolved None, st,
             [Call FindById, LogError (''Failed to find user by id: '' @ ident) err]))"

section \<open>Changing and deleting an account\<close>

text \<open>The first element that satisfies \<open>P\<close> is replaced, or taken out.\<close>

fun update_first :: "('a \<Rightarrow> bool) \<Rightarrow> ('a \<Rightarrow> 'a) \<Rightarrow> 'a list \<Rightarrow> 'a list" where
  "update_first P f [] = []"
| "update_first P f (x # xs) = (if P x then f x # xs else x # update_first P f xs)"

fun remove_first :: "('a \<Rightarrow> bool) \<Rightarrow> 'a list \<Rightarrow> 'a list" where
  "remove_first P [] = []"
| "remove_first P (x # xs) = (if P x then xs else x # remove_first P xs)"

text \<open>
  Modelled from the spec: the schema of the collection is not among the sources; the
  spec's unique \<open>username\<close> and \<open>email\<close> make an update fail when it changes one of
  them to a value that a document of the collection holds, and the store keeps
  \<open>updatedAt\<close>. This is \<open>AuthUser.findByIdAndUpdate(id, update, {new: true}).lean()\<close>:
  the id is cast, the first document with that \<open>_id\<close> gets the fields of the update and
  the current time as \<open>updatedAt\<close>, and the document as updated is returned; \<open>null\<close>
  when no document has the \<open>_id\<close>.
\<close>

definition AuthUser_findByIdAndUpdate :: "Env \<Rightarrow> Store \<Rightarrow> string \<Rightarrow> (AuthUserDoc \<Rightarrow> AuthUserDoc)
    \<Rightarrow> StoreError + (AuthUserDoc option \<times> Store)" where
  "AuthUser_findByIdAndUpdate env st ident upd =
     (case toObjectId env ident of
        None \<Rightarrow> Inl (CastError ident)
      | Some oid \<Rightarrow>
          if unavailable env FindByIdAndUpdate then Inl (Unavailable FindByIdAndUpdate)
          else
            (case find (\<lambda>d. a_id d = oid) (authUsers st) of
               None \<Rightarrow> Inr (None, st)
             | Some d \<Rightarrow>
                 let d' = (upd d)\<lparr>a_updatedAt := clock env\<rparr>
                 in if a_username d' \<noteq> a_username d
                       \<and> list_ex (\<lambda>x. a_username x = a_username d') (authUsers st)
                    then Inl (DuplicateKey ''username'')
                    else if a_email d' \<noteq> a_email d
                       \<and> list_ex (\<lambda>x. a_email x = a_email d') (authUsers st)
                    then Inl (DuplicateKey ''email'')
                    else Inr (Some d',
                              st\<lparr>authUsers :=
                                   update_first (\<lambda>x. a_id x = oid) (\<lambda>_. d') (authUsers st)\<rparr>)))"

definition removeRefreshTokenById :: "Env \<Rightarrow> Store \<Rightarrow> string
    \<Rightarrow> jsobj option Outcome \<times> Store \<times> Effect list" where
  "removeRefreshTokenById env st ident =
     (case AuthUser_findByIdAndUpdate env st ident (\<lambda>d. d\<lparr>a_refreshToken := None\<rparr>) of
        Inr (user, st') \<Rightarrow> (Resolved (normalize_or_null user), st', [Call FindByIdAndUpdate])
      | Inl err \<Rightarrow>
          (Resolved None, st,
           [Call FindByIdAndUpdate,
            LogError (''Failed to remove refresh token for user id: '' @ ident) err]))"

text \<open>
  The partial update \<open>updateById\<close> receives (\<open>IUpdateAuth\<close>, the fields of
  \<open>updateAuthSchema\<close>): \<open>None\<close> for a field the object does not have.
\<close>

record IUpdateAuth =
  up_username :: "string option"
  up_email :: "string option"
  up_role :: "string option"
  up_status :: "string option"
  up_isVerified :: "bool option"
  up_password :: "string option"

text \<open>The update \<open>{ ...data }\<close> sets the fields that \<open>data\<close> has.\<close>

definition set_fields :: "IUpdateAuth \<Rightarrow> AuthUserDoc \<Rightarrow> AuthUserDoc" where
  "set_fields u d =
     d\<lparr> a_username := (case up_username u of None \<Rightarrow> a_username d | Some v \<Rightarrow> v),
        a_email := (case up_email u of None \<Rightarrow> a_email d | Some v \<Rightarrow> v),
        a_role := (case up_role u of None \<Rightarrow> a_role d | Some v \<Rightarrow> v),
        a_status := (case up_status u of None \<Rightarrow> a_status d | Some v \<Rightarrow> v),
        a_isVerified := (case up_isVerified u of None \<Rightarrow> a_isVerified d | Some v \<Rightarrow> v),
        a_password := (case up_password u of None \<Rightarrow> a_password d | Some v \<Rightarrow> v) \<rparr>"

definition updateById :: "Env \<Rightarrow> Store \<Rightarrow> string \<Rightarrow> IUpdateAuth
    \<Rightarrow> jsobj option Outcome \<times> Store \<times> Effect list" where
  "updateById env st ident data =
     (case AuthUser_findByIdAndUpdate env st ident (set_fields data) of
        Inr (user, st') \<Rightarrow> (Resolved (normalize_or_null user), st', [Call FindByIdAndUpdate])
      | Inl err \<Rightarrow>
          (Resolved None, st,
           [Call FindByIdAndUpdate, LogError (''Failed to update user id: '' @ ident) err]))"

text \<open>\<open>AuthUser.findByIdAndDelete(id).lean()\<close>.\<close>

definition AuthUser_findByIdAndDelete :: "Env \<Rightarrow> Store \<Rightarrow> string
    \<Rightarrow> StoreError + (AuthUserDoc option \<times> Store)" where
  "AuthUser_findByIdAndDelete env st ident =
     (case toObjectId env ident of
        None \<Rightarrow> Inl (CastError ident)
      | Some oid \<Rightarrow>
          if unavailable env FindByIdAndDelete then Inl (Unavailable FindByIdAndDelete)
          else
            (case find (\<lambda>d. a_id d = oid) (authUsers st) of
               None \<Rightarrow> Inr (None, st)
             | Some d \<Rightarrow>
                 Inr (Some d, st\<lparr>authUsers := remove_first (\<lambda>x. a_id x = oid) (authUsers st)\<rparr>)))"

definition deleteById :: "Env \<Rightarrow> Store \<Rightarrow> string \<Rightarrow> jsobj option Outcome \<times> Store \<times> Effect list" where
  "deleteById env st ident =
     (case AuthUser_findByIdAndDelete env st ident of
        Inr (user, st') \<Rightarrow> (Resolved (normalize_or_null user), st', [Call FindByIdAndDelete])
      | Inl err \<Rightarrow>
          (Resolved None, st,
           [Call FindByIdAndDelete, LogError (''Failed to delete user id: '' @ ident) err]))"

section \<open>The paginated listing\<close>

text \<open>
  \<open>IQueryParams\<close>: every property is optional (\<open>None\<close> for \<open>undefined\<close>). \<open>page\<close>
  and \<open>limit\<close> are integers here; a number with a fraction is outside the model.
\<close>

record IQueryParams =
  q_page :: "int option"
  q_limit :: "int option"
  q_search :: "string option"
  q_sortBy :: "string option"
  q_sortOrder :: "string option"

text \<open>
  A JavaScript number that a division can give: \<open>total / limit\<close> is infinite or not a
  number when \<open>limit\<close> is 0.
\<close>

datatype jsnum = Num int | PosInfinity | NaN

record Pagination =
  p_page :: int
  p_limit :: int
  p_total :: nat
  p_totalPages :: jsnum

record PaginatedData =
  pd_data :: "jsobj list"
  pd_pagination :: Pagination

text \<open>\<open>Math.ceil(total / limit)\<close> for a count \<open>total\<close> (here \<open>total'\<close>) and an integer \<open>limit\<close>.\<close>

definition Math_ceil_div :: "nat \<Rightarrow> int \<Rightarrow> jsnum" where
  "Math_ceil_div total' limit =
     (if limit = 0 then (if total' = 0 then NaN else PosInfinity)
      else Num (- ((- int total') div limit)))"

text \<open>The filter \<open>findAll\<close> builds: empty, or the \<open>$or\<close> of two \<open>$regex\<close> conditions.\<close>

datatype Filter = NoFilter | UsernameOrEmailRegex string

definition matching :: "Env \<Rightarrow> Filter \<Rightarrow> AuthUserDoc list \<Rightarrow> StoreError + AuthUserDoc list" where
  "matching env flt docs =
     (case flt of
        NoFilter \<Rightarrow> Inr docs
      | UsernameOrEmailRegex pat \<Rightarrow>
          (case compileRegex env pat of
             None \<Rightarrow> Inl (InvalidRegex pat)
           | Some m \<Rightarrow> Inr (filter (\<lambda>d. m (a_username d) \<or> m (a_email d)) docs)))"

text \<open>
  \<open>.sort({[field]: dir})\<close>: ascending for 1, descending otherwise; strings compare
  code unit by code unit, dates by time. Documents with equal keys keep the collection's
  order (the store promises no order among them). A field the documents do not have
  leaves the order as it is.
\<close>

definition sort_asc :: "string \<Rightarrow> AuthUserDoc list \<Rightarrow> AuthUserDoc list" where
  "sort_asc field docs =
     (if field = ''username'' then sort_key a_username docs
      else if field = ''email'' then sort_key a_email docs
      else if field = ''createdAt'' then sort_key a_createdAt docs
      else if field = ''updatedAt'' then sort_key a_updatedAt docs
      else docs)"

definition sort_docs :: "string \<times> int \<Rightarrow> AuthUserDoc list \<Rightarrow> AuthUserDoc list" where
  "sort_docs spec docs =
     (if snd spec = 1 then sort_asc (fst spec) docs else rev (sort_asc (fst spec) (rev docs)))"

text \<open>
  \<open>.skip(n)\<close> and \<open>.limit(n)\<close>: the store refuses a negative skip; a limit of 0 is no
  limit, and the driver sends a negative limit as its absolute value.
\<close>

definition limit_docs :: "int \<Rightarrow> 'a list \<Rightarrow> 'a list" where
  "limit_docs n docs = (if n = 0 then docs else take (nat \<bar>n\<bar>) docs)"

text \<open>The pieces of a string between the occurrences of a separator.\<close>

fun split_on :: "char \<Rightarrow> string \<Rightarrow> string list" where
  "split_on sep [] = [[]]"
| "split_on sep (c # cs) =
     (if c = sep then [] # split_on sep cs
      else case split_on sep cs of
             [] \<Rightarrow> [[c]]
           | w # ws \<Rightarrow> (c # w) # ws)"

text \<open>
  \<open>.select("a b c")\<close>: the paths named, separated by spaces, are kept and so is
  \<open>_id\<close>; reading any other path of the document gives \<open>undefined\<close>.
\<close>

definition select :: "string \<Rightarrow> LeanDoc \<Rightarrow> LeanDoc" where
  "select paths d =
     (let keep = (\<lambda>path v. if path \<in> set (split_on CHR '' '' paths) then v else JUndefined)
      in \<lparr> l_id = l_id d,
           l_username = keep ''username'' (l_username d),
           l_email = keep ''email'' (l_email d),
           l_password = keep ''password'' (l_password d),
           l_role = keep ''role'' (l_role d),
           l_status = keep ''status'' (l_status d),
           l_isVerified = keep ''isVerified'' (l_isVerified d),
           l_refreshToken = keep ''refreshToken'' (l_refreshToken d),
           l_createdAt = keep ''createdAt'' (l_createdAt d),
           l_updatedAt = keep ''updatedAt'' (l_updatedAt d) \<rparr>)"

text \<open>\<open>AuthUser.find(filter).sort(sort).skip(skip).limit(limit).select(paths).lean()\<close>.\<close>

definition AuthUser_find :: "Env \<Rightarrow> Store \<Rightarrow> Filter \<Rightarrow> string \<times> int \<Rightarrow> int \<Rightarrow> int \<Rightarrow> string
    \<Rightarrow> StoreError + LeanDoc list" where
  "AuthUser_find env st flt spec skip limit paths =
     (if unavailable env Find then Inl (Unavailable Find)
      else
        case matching env flt (authUsers st) of
          Inl err \<Rightarrow> Inl err
        | Inr docs \<Rightarrow>
            if skip < 0 then Inl (BadValue ''skip'')
            else Inr (map (\<lambda>d. select paths (lean d))
                        (limit_docs limit (drop (nat skip) (sort_docs spec docs)))))"

text \<open>\<open>AuthUser.countDocuments(filter)\<close>.\<close>

definition AuthUser_countDocuments :: "Env \<Rightarrow> Store \<Rightarrow> Filter \<Rightarrow> StoreError + nat" where
  "AuthUser_countDocuments env st flt =
     (if unavailable env CountDocuments then Inl (Unavailable CountDocuments)
      else
        case matching env flt (authUsers st) of
          Inl err \<Rightarrow> Inl err
        | Inr docs \<Rightarrow> Inr (length docs))"

text \<open>
  \<open>Promise.all\<close> of two promises: both calls are made; the result rejects when one of
  them does, with the error of the one that rejects first. Which that is when both
  reject is not the repository's to decide: \<open>secondFirst\<close> says that it is the second.
\<close>

definition Promise_all :: "bool \<Rightarrow> 'e + 'a \<Rightarrow> 'e + 'b \<Rightarrow> 'e + ('a \<times> 'b)" where
  "Promise_all secondFirst a b =
     (case a of
        Inl err1 \<Rightarrow>
          (case b of Inl err2 \<Rightarrow> Inl (if secondFirst then err2 else err1) | Inr y \<Rightarrow> Inl err1)
      | Inr x \<Rightarrow> (case b of Inl err2 \<Rightarrow> Inl err2 | Inr y \<Rightarrow> Inr (x, y)))"

definition allowedSortFields :: "string list" where
  "allowedSortFields = [''username'', ''email'', ''createdAt'', ''updatedAt'']"

text \<open>The filter \<open>findAll\<close> builds from \<open>search\<close>, and the sort from \<open>sortBy\<close> and \<open>sortOrder\<close>.\<close>

definition searchFilter :: "string \<Rightarrow> Filter" where
  "searchFilter search = (if trim search \<noteq> [] then UsernameOrEmailRegex search else NoFilter)"

definition sortSpec :: "string \<Rightarrow> string \<Rightarrow> string \<times> int" where
  "sortSpec sortBy sortOrder =
     (let sortField = (if sortBy \<in> set allowedSortFields then sortBy else ''createdAt'')
      in (sortField, if sortOrder = ''asc'' then 1 else - 1))"

definition dashboardPaths :: string where
  "dashboardPaths = ''username email role status isVerified createdAt updatedAt''"

text \<open>\<open>AuthRepository.findAll\<close>.\<close>

definition findAll :: "Env \<Rightarrow> Store \<Rightarrow> IQueryParams \<Rightarrow> PaginatedData Outcome \<times> Store \<times> Effect list" where
  "findAll env st params =
     (let page = (case q_page params of None \<Rightarrow> 1 | Some v \<Rightarrow> v);
          limit = (case q_limit params of None \<Rightarrow> 10 | Some v \<Rightarrow> v);
          search = (case q_search params of None \<Rightarrow> [] | Some v \<Rightarrow> v);
          sortBy = (case q_sortBy params of None \<Rightarrow> ''createdAt'' | Some v \<Rightarrow> v);
          sortOrder = (case q_sortOrder params of None \<Rightarrow> ''desc'' | Some v \<Rightarrow> v);
          skip = (page - 1) * limit;
          flt = searchFilter search;
          sort = sortSpec sortBy sortOrder
      in case Promise_all (countRejectsFirst env)
                (AuthUser_find env st flt sort skip limit dashboardPaths)
                (AuthUser_countDocuments env st flt) of
           Inr (users, total') \<Rightarrow>
             (Resolved
                \<lparr> pd_data = map normalize users,
                  pd_pagination =
                    \<lparr> p_page = page, p_limit = limit, p_total = total',
                      p_totalPages = Math_ceil_div total' limit \<rparr> \<rparr>,
              st, [Call Find, Call CountDocuments])
         | Inl err \<Rightarrow>
             (Resolved
                \<lparr> pd_data = [],
                  pd_pagination =
                    \<lparr> p_page = (case q_page params of None \<Rightarrow> 1 | Some v \<Rightarrow> v),
                      p_limit = (case q_limit params of None \<Rightarrow> 10 | Some v \<Rightarrow> v),
                      p_total = 0, p_totalPages = Num 0 \<rparr> \<rparr>,
              st,
              [Call Find, Call CountDocuments,
               LogError ''Error fetching auth dashboard users'' err]))"

section \<open>The request schemas\<close>

text \<open>
  A zod string schema is \<open>z.string()\<close> followed by checks that run in the order they
  are written. A check either rewrites the value (\<open>trim\<close>, \<open>toLowerCase\<close>) or tests the
  value as the checks before it left it, and adds its message when the test fails; the
  checks after a failed one still run. \<open>nonempty(msg)\<close> is \<open>min(1, msg)\<close>;
  \<open>regex\<close> and \<open>email\<close> are tests of the whole value.
\<close>

datatype StringCheck =
  MinLength nat string | MaxLength nat string | Trim | ToLowerCase
  | Matches "string \<Rightarrow> bool" string

fun run_checks :: "StringCheck list \<Rightarrow> string \<Rightarrow> string list \<Rightarrow> string \<times> string list" where
  "run_checks [] s issues = (s, issues)"
| "run_checks (MinLength n msg # cs) s issues =
     run_checks cs s (if length s < n then issues @ [msg] else issues)"
| "run_checks (MaxLength n msg # cs) s issues =
     run_checks cs s (if n < length s then issues @ [msg] else issues)"
| "run_checks (Trim # cs) s issues = run_checks cs (trim s) issues"
| "run_checks (ToLowerCase # cs) s issues = run_checks cs (toLowerCase s) issues"
| "run_checks (Matches accepts msg # cs) s issues =
     run_checks cs s (if accepts s then issues else issues @ [msg])"

text \<open>
  An issue is the path of the value and a message. Parsing a value gives the issues and,
  unless the value has the wrong type, the value as the checks left it. The message for
  a value of the wrong type names the type received; the message for a value that is
  none of an enum's options lists the options, each in double quotes.
\<close>

type_synonym Issue = "string list \<times> string"

definition parsedType :: "jsval \<Rightarrow> string" where
  "parsedType v =
     (case v of
        JUndefined \<Rightarrow> ''undefined''
      | JNull \<Rightarrow> ''null''
      | JString s \<Rightarrow> ''string''
      | JBoolean b \<Rightarrow> ''boolean''
      | JDate t \<Rightarrow> ''Date'')"

definition stringifyPrimitive :: "string \<Rightarrow> string" where
  "stringifyPrimitive s = [CHR 0x22] @ s @ [CHR 0x22]"

fun joinValues :: "string list \<Rightarrow> string" where
  "joinValues [] = []"
| "joinValues [v] = stringifyPrimitive v"
| "joinValues (v # vs) = stringifyPrimitive v @ ''|'' @ joinValues vs"

definition invalid_value :: "string list \<Rightarrow> string" where
  "invalid_value options =
     (if length options = 1 then ''Invalid input: expected '' @ stringifyPrimitive (hd options)
      else ''Invalid option: expected one of '' @ joinValues options)"

definition z_string :: "string list \<Rightarrow> StringCheck list \<Rightarrow> jsval \<Rightarrow> Issue list \<times> string option" where
  "z_string path checks v =
     (case v of
        JString s \<Rightarrow>
          (case run_checks checks s [] of (s', msgs) \<Rightarrow> (map (Pair path) msgs, Some s'))
      | _ \<Rightarrow> ([(path, ''Invalid input: expected string, received '' @ parsedType v)], None))"

definition z_boolean :: "string list \<Rightarrow> jsval \<Rightarrow> Issue list \<times> bool option" where
  "z_boolean path v =
     (case v of
        JBoolean b \<Rightarrow> ([], Some b)
      | _ \<Rightarrow> ([(path, ''Invalid input: expected boolean, received '' @ parsedType v)], None))"

definition z_enum :: "string list \<Rightarrow> string list \<Rightarrow> jsval \<Rightarrow> Issue list \<times> string option" where
  "z_enum path options v =
     (case v of
        JString s \<Rightarrow>
          if s \<in> set options then ([], Some s) else ([(path, invalid_value options)], None)
      | _ \<Rightarrow> ([(path, invalid_value options)], None))"

text \<open>\<open>.optional()\<close>: \<open>undefined\<close> is accepted as it is.\<close>

definition z_optional :: "(jsval \<Rightarrow> Issue list \<times> 'a option) \<Rightarrow> jsval \<Rightarrow> Issue list \<times> 'a option option" where
  "z_optional parse v =
     (if v = JUndefined then ([], Some None)
      else case parse v of (issues, r) \<Rightarrow> (issues, map_option Some r))"

text \<open>The character classes of the regular expressions.\<close>

definition isUpper :: "char \<Rightarrow> bool" where
  "isUpper c = (65 \<le> (of_char c :: nat) \<and> (of_char c :: nat) \<le> 90)"

definition isLower :: "char \<Rightarrow> bool" where
  "isLower c = (97 \<le> (of_char c :: nat) \<and> (of_char c :: nat) \<le> 122)"

definition isDigit :: "char \<Rightarrow> bool" where
  "isDigit c = (48 \<le> (of_char c :: nat) \<and> (of_char c :: nat) \<le> 57)"

definition isAlnum :: "char \<Rightarrow> bool" where
  "isAlnum c = (isUpper c \<or> isLower c \<or> isDigit c)"

text \<open>\<open>/^[a-z0-9_]+$/\<close>\<close>

definition username_regex :: "string \<Rightarrow> bool" where
  "username_regex s = (s \<noteq> [] \<and> list_all (\<lambda>c. isLower c \<or> isDigit c \<or> c = CHR ''_'') s)"

text \<open>
  The test behind \<open>.email()\<close>, zod's regular expression
  \<^verbatim>\<open>^(?!\.)(?!.*\.\.)([A-Za-z0-9_'+\-\.]*)[A-Za-z0-9_+-]@([A-Za-z0-9][A-Za-z0-9\-]*\.)+[A-Za-z]{2,}$\<close>:
  one \<open>@\<close>; before it a non-empty local part of letters, digits and \<open>_ ' + - .\<close> that
  does not end with \<open>'\<close> or a dot; after it at least two labels separated by dots, the
  last one of two or more letters, the others a letter or digit followed by letters,
  digits and dashes; no dot at the start and no two dots in a row.
\<close>

fun has_double_dot :: "string \<Rightarrow> bool" where
  "has_double_dot (a # b # cs) = ((a = CHR ''.'' \<and> b = CHR ''.'') \<or> has_double_dot (b # cs))"
| "has_double_dot _ = False"

definition isLabel :: "string \<Rightarrow> bool" where
  "isLabel l = (l \<noteq> [] \<and> isAlnum (hd l) \<and> list_all (\<lambda>c. isAlnum c \<or> c = CHR ''-'') (tl l))"

definition isEmail :: "string \<Rightarrow> bool" where
  "isEmail s =
     (case split_on CHR ''@'' s of
        [localPart, domain] \<Rightarrow>
          localPart \<noteq> [] \<and> hd s \<noteq> CHR ''.'' \<and> \<not> has_double_dot s
          \<and> list_all (\<lambda>c. isAlnum c \<or> c \<in> set [CHR ''_'', CHR 0x27, CHR ''+'', CHR ''-'', CHR ''.''])
                (butlast localPart)
          \<and> (isAlnum (last localPart) \<or> last localPart \<in> set [CHR ''_'', CHR ''+'', CHR ''-''])
          \<and> (let labels = split_on CHR ''.'' domain
              in 2 \<le> length labels \<and> list_all isLabel (butlast labels)
                 \<and> 2 \<le> length (last labels)
                 \<and> list_all (\<lambda>c. isUpper c \<or> isLower c) (last labels))
      | _ \<Rightarrow> False)"

definition password_checks :: "StringCheck list" where
  "password_checks =
     [ MinLength 1 ''Password is required'',
       MinLength 8 ''Password must be at least 8 characters long'',
       MaxLength 64 ''Password must be at most 64 characters long'',
       Matches (list_ex isUpper) ''Password must contain at least one uppercase letter'',
       Matches (list_ex isLower) ''Password must contain at least one lowercase letter'',
       Matches (list_ex isDigit) ''Password must contain at least one number'',
       Matches (list_ex (\<lambda>c. c \<in> set ''@$!%*?&#''))
         ''Password must contain at least one special character (@$!%*?&#)'' ]"

record RegisterUser =
  r_username :: string
  r_email :: string
  r_password :: string

text \<open>The checks of \<open>username\<close> and of \<open>email\<close> in \<open>registerUserSchema\<close>.\<close>

definition register_username_checks :: "StringCheck list" where
  "register_username_checks =
     [ MinLength 1 ''Username is required'',
       Trim,
       ToLowerCase,
       MinLength 3 ''Username must be at least 3 characters long'',
       MaxLength 20 ''Username must be at most 20 characters long'',
       Matches username_regex
         ''Username can only contain lowercase letters, numbers, and underscores'' ]"

definition register_email_checks :: "StringCheck list" where
  "register_email_checks =
     [ MinLength 1 ''Email is required'',
       Trim,
       Matches isEmail ''Invalid email address'' ]"

text \<open>\<open>registerUserSchema\<close>, applied to the body of the request.\<close>

definition registerUserSchema :: "jsobj \<Rightarrow> Issue list + RegisterUser" where
  "registerUserSchema input =
     (case
        ( z_string [''username''] register_username_checks (prop_of input ''username''),
          z_string [''email''] register_email_checks (prop_of input ''email''),
          z_string [''password''] password_checks (prop_of input ''password'') )
      of
        (([], Some u), ([], Some e), ([], Some p)) \<Rightarrow>
          Inr \<lparr> r_username = u, r_email = e, r_password = p \<rparr>
      | ((i1, _), (i2, _), (i3, _)) \<Rightarrow> Inl (i1 @ i2 @ i3))"

text \<open>
  \<open>updateAuthSchema\<close>. The values of the enums \<open>UserRole\<close> and \<open>AuthStatus\<close>
  (\<open>auth.entity\<close>, not among the sources) are parameters. The refinement runs on the
  parsed object unless a property has the wrong type, and asks for a property that is
  neither \<open>undefined\<close> nor \<open>null\<close>.
\<close>

definition update_username_checks :: "StringCheck list" where
  "update_username_checks =
     [ Trim,
       MinLength 3 ''Username must be at least 3 characters long'',
       MaxLength 30 ''Username must be at most 30 characters long'' ]"

definition update_email_checks :: "StringCheck list" where
  "update_email_checks = [ Trim, Matches isEmail ''Invalid email format'' ]"

definition updateAuthSchema :: "string list \<Rightarrow> string list \<Rightarrow> jsobj \<Rightarrow> Issue list + IUpdateAuth" where
  "updateAuthSchema UserRole AuthStatus input =
     (case
        ( z_optional (z_string [''username''] update_username_checks) (prop_of input ''username''),
          z_optional (z_string [''email''] update_email_checks) (prop_of input ''email''),
          z_optional (z_enum [''role''] UserRole) (prop_of input ''role''),
          z_optional (z_enum [''status''] AuthStatus) (prop_of input ''status''),
          z_optional (z_boolean [''isVerified'']) (prop_of input ''isVerified''),
          z_optional (z_string [''password''] password_checks) (prop_of input ''password'') )
      of
        ((i1, Some u), (i2, Some e), (i3, Some r), (i4, Some s), (i5, Some v), (i6, Some p)) \<Rightarrow>
          (let issues =
                 i1 @ i2 @ i3 @ i4 @ i5 @ i6
                 @ (if u \<noteq> None \<or> e \<noteq> None \<or> r \<noteq> None \<or> s \<noteq> None \<or> v \<noteq> None \<or> p \<noteq> None
                    then []
                    else [([], ''At least one field must be provided for update.'')])
           in if issues = []
              then Inr \<lparr> up_username = u, up_email = e, up_role = r, up_status = s,
                         up_isVerified = v, up_password = p \<rparr>
              else Inl issues)
      | ((i1, _), (i2, _), (i3, _), (i4, _), (i5, _), (i6, _)) \<Rightarrow>
          Inl (i1 @ i2 @ i3 @ i4 @ i5 @ i6))"

section \<open>The controller\<close>

text \<open>
  \<open>new ApiError(message, statusCode, errorCode)\<close>; the controller uses one error code.
  A response is what \<open>ApiResponse.success(res, message, data)\<close> is given.
\<close>

datatype ErrorCode = BAD_REQUEST

datatype ApiError = ApiError string nat ErrorCode

record 'a ApiResponse =
  res_message :: string
  res_data :: 'a

text \<open>
  The request \<open>updateById\<close> reads: \<open>req.params.id\<close> (\<open>None\<close> for \<open>undefined\<close>) and
  \<open>req.body\<close> at its declared type \<open>IUpdateAuth\<close> (\<open>None\<close> when there is no body).
\<close>

record UpdateRequest =
  req_params_id :: "string option"
  req_body :: "IUpdateAuth option"

text \<open>
  \<open>Object.keys\<close> of a partial update: the fields it has. The body is an
  \<open>IUpdateAuth\<close> here, so it has no other property to count, and no field that is
  \<open>null\<close>.
\<close>

definition IUpdateAuth_keys :: "IUpdateAuth \<Rightarrow> string list" where
  "IUpdateAuth_keys u =
     (if up_username u \<noteq> None then [''username''] else [])
     @ (if up_email u \<noteq> None then [''email''] else [])
     @ (if up_role u \<noteq> None then [''role''] else [])
     @ (if up_status u \<noteq> None then [''status''] else [])
     @ (if up_isVerified u \<noteq> None then [''isVerified''] else [])
     @ (if up_password u \<noteq> None then [''password''] else [])"

text \<open>
  \<open>AuthController.updateById\<close>. The service is the controller's constructor argument:
  \<open>updateAuth\<close> returns the updated account or throws, and what it throws is what the
  controller throws.
\<close>

definition AuthController_updateById :: "(string \<Rightarrow> IUpdateAuth \<Rightarrow> 'e + 'a) \<Rightarrow> UpdateRequest
    \<Rightarrow> (ApiError + 'e) + 'a ApiResponse" where
  "AuthController_updateById updateAuth req =
     (case req_params_id req of
        None \<Rightarrow> Inl (Inl (ApiError ''Auth ID is required'' 400 BAD_REQUEST))
      | Some ident \<Rightarrow>
          if ident = [] then Inl (Inl (ApiError ''Auth ID is required'' 400 BAD_REQUEST))
          else
            (case req_body req of
               None \<Rightarrow> Inl (Inl (ApiError ''No update data provided'' 400 BAD_REQUEST))
             | Some updates \<Rightarrow>
                 if length (IUpdateAuth_keys updates) = 0
                 then Inl (Inl (ApiError ''No update data provided'' 400 BAD_REQUEST))
                 else
                   (case updateAuth ident updates of
                      Inl err \<Rightarrow> Inl (Inr err)
                    | Inr updated \<Rightarrow>
                        Inr \<lparr> res_message = ''Account details updated successfully'',
                              res_data = updated \<rparr>)))"

section \<open>The service\<close>

text \<open>
  Modelled from the spec: the service (\<open>auth.service\<close>, the \<open>updateAuth\<close> the controller
  calls) is not among the sources. The spec, 4.5: "updateAccount(id, partialFields): apply
  a partial field update; fails with NoFieldsProvided if the update set is empty; fails
  with AccountNotFound if id does not resolve." The update is applied with the
  repository's \<open>updateById\<close>, whose result for an id that does not resolve is \<open>null\<close>.
\<close>

datatype LifecycleError = NoFieldsProvided | AccountNotFound | DuplicateAccount | StorageFailure

definition updateAccount :: "Env \<Rightarrow> Store \<Rightarrow> string \<Rightarrow> IUpdateAuth
    \<Rightarrow> (LifecycleError + jsobj) \<times> Store \<times> Effect list" where
  "updateAccount env st ident partialFields =
     (if IUpdateAuth_keys partialFields = [] then (Inl NoFieldsProvided, st, [])
      else
        case updateById env st ident partialFields of
          (Resolved (Some account), st', effects) \<Rightarrow> (Inr account, st', effects)
        | (_, st', effects) \<Rightarrow> (Inl AccountNotFound, st', effects))"

text \<open>
  Modelled from the spec: the service's \<open>registerUser\<close> (called by the controller's
  \<open>register\<close>) is not among the sources, and neither are the password hasher and the
  role, status and verification flag a new account starts with, which are parameters
  here. The spec, 4.5: "register(username, email, password): normalize username/email
  (lowercase, trim), fail with DuplicateAccount if either is already taken, hash the
  password, then atomically create the Credential and its linked Profile as a single
  all-or-nothing unit. Returns the normalized Credential (password hash excluded from
  the returned view)"; 6: "Account view: {id, username, email, role, status, isVerified,
  createdAt, updatedAt}"; 7: a store that fails is a \<open>StorageFailure\<close>. The lookups and
  the creation are the repository's \<open>findByUsername\<close>, \<open>findByEmail\<close> and \<open>create\<close>
  (which reads neither the id nor the timestamps of the entity it is given).
\<close>

record ServiceConfig =
  hashPassword :: "string \<Rightarrow> string"
  initialRole :: string
  initialStatus :: string
  initialVerified :: bool

definition accountView :: "jsobj \<Rightarrow> jsobj" where
  "accountView account =
     filter (\<lambda>(k, v). k \<in> set [''id'', ''username'', ''email'', ''role'', ''status'',
                                  ''isVerified'', ''createdAt'', ''updatedAt''])
       account"

definition registerUser :: "ServiceConfig \<Rightarrow> Env \<Rightarrow> Store \<Rightarrow> RegisterUser
    \<Rightarrow> (LifecycleError + jsobj) \<times> Store \<times> Effect list" where
  "registerUser cfg env st input =
     (let username = toLowerCase (trim (r_username input));
          email = toLowerCase (trim (r_email input))
      in case findByUsername env st username of
           (byUsername, st1, effects1) \<Rightarrow>
             (case findByEmail env st1 email of
                (byEmail, st2, effects2) \<Rightarrow>
                  if byUsername \<noteq> Resolved None \<or> byEmail \<noteq> Resolved None
                  then (Inl DuplicateAccount, st2, effects1 @ effects2)
                  else
                    (case create env st2
                            \<lparr> e_id = [], e_username = username, e_email = email,
                              e_password = hashPassword cfg (r_password input),
                              e_role = initialRole cfg, e_status = initialStatus cfg,
                              e_isVerified = initialVerified cfg, e_refreshToken = None,
                              e_createdAt = 0, e_updatedAt = 0 \<rparr> of
                       (Resolved (Some account), st3, effects3) \<Rightarrow>
                         (Inr (accountView account), st3, effects1 @ effects2 @ effects3)
                     | (_, st3, effects3) \<Rightarrow>
                         (Inl StorageFailure, st3, effects1 @ effects2 @ effects3))))"

section \<open>Example data\<close>

text \<open>
  A store with two accounts and their profiles, and what the examples need of the
  store's side: every call succeeds, an \<open>ObjectId\<close> is written as 24 hexadecimal
  digits (kept in lower case), and the regular expression engine is given patterns
  without special characters only, which match where the subject contains them,
  letter case aside.
\<close>

definition isHexDigit :: "char \<Rightarrow> bool" where
  "isHexDigit c = (c \<in> set ''0123456789abcdefABCDEF'')"

fun starts_with :: "string \<Rightarrow> string \<Rightarrow> bool" where
  "starts_with [] s = True"
| "starts_with (p # ps) [] = False"
| "starts_with (p # ps) (c # cs) = (p = c \<and> starts_with ps cs)"

fun contains :: "string \<Rightarrow> string \<Rightarrow> bool" where
  "contains p [] = (p = [])"
| "contains p (c # cs) = (starts_with p (c # cs) \<or> contains p cs)"

definition exampleEnv :: Env where
  "exampleEnv =
     \<lparr> unavailable = (\<lambda>_. False),
       newObjectId = ''65f0000000000000000000a3'',
       clock = 100,
       toObjectId = (\<lambda>s. if length s = 24 \<and> list_all isHexDigit s
                          then Some (toLowerCase s) else None),
       compileRegex = (\<lambda>p. Some (\<lambda>s. contains (toLowerCase p) (toLowerCase s))),
       countRejectsFirst = False \<rparr>"

definition alice :: AuthUserDoc where
  "alice =
     \<lparr> a_id = ''65f0000000000000000000a1'', a_username = ''alice'',
       a_email = ''alice@x.com'', a_password = ''hashA'', a_role = ''admin'',
       a_status = ''active'', a_isVerified = True, a_refreshToken = Some ''tokenA'',
       a_createdAt = 10, a_updatedAt = 20 \<rparr>"

definition bob :: AuthUserDoc where
  "bob =
     \<lparr> a_id = ''65f0000000000000000000a2'', a_username = ''bob'',
       a_email = ''bob@x.com'', a_password = ''hashB'', a_role = ''user'',
       a_status = ''active'', a_isVerified = False, a_refreshToken = None,
       a_createdAt = 30, a_updatedAt = 40 \<rparr>"

definition carol :: IAuthEntity where
  "carol =
     \<lparr> e_id = [], e_username = ''carol'', e_email = ''carol@x.com'', e_password = ''hashC'',
       e_role = ''user'', e_status = ''active'', e_isVerified = False,
       e_refreshToken = None, e_createdAt = 0, e_updatedAt = 0 \<rparr>"

definition profileOf :: "AuthUserDoc \<Rightarrow> UserDoc" where
  "profileOf d =
     \<lparr> u_id = a_id d, fullName = a_username d, avatar = None, bio = [],
       socialLinks = \<lparr> twitter = None, linkedin = None, github = None, website = None \<rparr>,
       followers = [], following = [],
       preferences = \<lparr> emailNotifications = True, marketingUpdates = False,
                       twoFactorAuth = False \<rparr> \<rparr>"

definition exampleConfig :: ServiceConfig where
  "exampleConfig =
     \<lparr> hashPassword = (\<lambda>p. ''hash('' @ p @ '')''), initialRole = ''user'',
       initialStatus = ''active'', initialVerified = False \<rparr>"

definition exampleStore :: Store where
  "exampleStore = \<lparr> authUsers = [alice, bob], profiles = [profileOf alice, profileOf bob] \<rparr>"

section \<open>Registration is all or nothing\<close>

text \<open>
  Claim C1. For every registration input, \<open>create\<close> either creates the credential and
  its profile together, both with the one \<open>_id\<close> the store generated (which is the
  \<open>id\<close> of the entity it returns), or it fails, with \<open>null\<close> or a rejected promise, and
  leaves both collections exactly as they were before the call, whichever of the writes
  failed: no credential without a profile and no profile without a credential is left.
\<close>

theorem create_all_or_nothing:
  "(\<exists>auth.
      create env st d =
        (Resolved (Some (normalize (lean auth))),
         st\<lparr>authUsers := authUsers st @ [auth], profiles := profiles st @ [newProfile auth d]\<rparr>,
         [Call StartSession, Call AuthUserCreate, Call UserCreate, Call CommitTransaction])
      \<and> a_id auth = newObjectId env \<and> u_id (newProfile auth d) = a_id auth
      \<and> prop_of (normalize (lean auth)) ''id'' = JString (a_id auth))
   \<or> ((fst (create env st d) = Resolved None \<or> (\<exists>err. fst (create env st d) = Rejected err))
       \<and> fst (snd (create env st d)) = st)"
proof (cases "unavailable env StartSession")
  case True
  then show ?thesis by (simp add: create_def)
next
  case started: False
  show ?thesis
  proof (cases "AuthUser_create env st d")
    case (Inl err)
    with started show ?thesis by (simp add: create_def create_catch_def)
  next
    case (Inr r)
    obtain auth st1 where r: "r = (auth, st1)" by (cases r)
    from Inr r have auth: "a_id auth = newObjectId env"
      and st1: "st1 = st\<lparr>authUsers := authUsers st @ [auth]\<rparr>"
      by (auto simp: AuthUser_create_def Let_def split: if_splits)
    show ?thesis
    proof (cases "User_create env st1 (newProfile auth d)")
      case (Inl err)
      with started Inr r show ?thesis by (simp add: create_def create_catch_def)
    next
      case prof: (Inr st2)
      then have st2: "st2 = st1\<lparr>profiles := profiles st1 @ [newProfile auth d]\<rparr>"
        by (auto simp: User_create_def split: if_splits)
      show ?thesis
      proof (cases "unavailable env CommitTransaction")
        case True
        with started Inr r prof show ?thesis by (simp add: create_def create_catch_def)
      next
        case False
        have "create env st d = (Resolved (Some (normalize (lean auth))), st2,
            [Call StartSession, Call AuthUserCreate, Call UserCreate, Call CommitTransaction])"
          using started Inr r prof False by (simp add: create_def)
        moreover have "prop_of (normalize (lean auth)) ''id'' = JString (a_id auth)"
          by (simp add: prop_of_def normalize_def lean_def)
        moreover have "u_id (newProfile auth d) = a_id auth" by (simp add: newProfile_def)
        ultimately show ?thesis using auth st1 st2 by auto
      qed
    qed
  qed
qed

text \<open>
  The three ways of the theorem on the example store: a registration that goes through,
  one whose profile cannot be written after the credential was (rolled back, the store
  as before), and one with an email that is taken.
\<close>

theorem create_all_or_nothing_witness:
  "create exampleEnv exampleStore carol =
     (Resolved (Some
        [ (''id'', JString ''65f0000000000000000000a3''), (''username'', JString ''carol''),
          (''email'', JString ''carol@x.com''), (''password'', JString ''hashC''),
          (''role'', JString ''user''), (''status'', JString ''active''),
          (''isVerified'', JBoolean False), (''refreshToken'', JNull),
          (''createdAt'', JDate 100), (''updatedAt'', JDate 100) ]),
      \<lparr> authUsers =
          [ alice, bob,
            \<lparr> a_id = ''65f0000000000000000000a3'', a_username = ''carol'',
              a_email = ''carol@x.com'', a_password = ''hashC'', a_role = ''user'',
              a_status = ''active'', a_isVerified = False, a_refreshToken = None,
              a_createdAt = 100, a_updatedAt = 100 \<rparr> ],
        profiles =
          [ profileOf alice, profileOf bob,
            \<lparr> u_id = ''65f0000000000000000000a3'', fullName = ''carol'', avatar = None, bio = [],
              socialLinks = \<lparr> twitter = None, linkedin = None, github = None, website = None \<rparr>,
              followers = [], following = [],
              preferences = \<lparr> emailNotifications = True, marketingUpdates = False,
                              twoFactorAuth = False \<rparr> \<rparr> ] \<rparr>,
      [Call StartSession, Call AuthUserCreate, Call UserCreate, Call CommitTransaction])
   \<and> create (exampleEnv\<lparr>unavailable := (\<lambda>op. op = UserCreate)\<rparr>) exampleStore carol =
     (Resolved None, exampleStore,
      [Call StartSession, Call AuthUserCreate, Call UserCreate, Call AbortTransaction,
       LogError ''Failed to create auth + user transaction'' (Unavailable UserCreate)])
   \<and> create exampleEnv exampleStore (carol\<lparr>e_email := ''bob@x.com''\<rparr>) =
     (Resolved None, exampleStore,
      [Call StartSession, Call AuthUserCreate, Call AbortTransaction,
       LogError ''Failed to create auth + user transaction'' (DuplicateKey ''email'')])"
  using create_all_or_nothing [of exampleEnv exampleStore carol]
    create_all_or_nothing [of "exampleEnv\<lparr>unavailable := (\<lambda>op. op = UserCreate)\<rparr>" exampleStore carol]
  by (simp add: create_def create_catch_def AuthUser_create_def User_create_def newProfile_def
        normalize_def lean_def nullish_def exampleEnv_def exampleStore_def carol_def alice_def
        bob_def profileOf_def Let_def)

section \<open>Clearing the refresh token\<close>

lemma find_update_first:
  "(\<And>x. P x \<Longrightarrow> P (f x)) \<Longrightarrow> find P (update_first P f xs) = map_option f (find P xs)"
  by (induction xs) auto

lemma update_first_twice:
  "P a \<Longrightarrow> update_first P (\<lambda>_. b) (update_first P (\<lambda>_. a) xs) = update_first P (\<lambda>_. b) xs"
  by (induction xs) auto

lemma find_Some_holds: "find P xs = Some x \<Longrightarrow> P x"
  by (induction xs) (auto split: if_splits)

lemma clear_found:
  assumes "toObjectId env ident = Some oid" "\<not> unavailable env FindByIdAndUpdate"
    "find (\<lambda>x. a_id x = oid) (authUsers st) = Some d"
  shows "removeRefreshTokenById env st ident =
     (Resolved (Some (normalize (lean (d\<lparr>a_refreshToken := None, a_updatedAt := clock env\<rparr>)))),
      st\<lparr>authUsers := update_first (\<lambda>x. a_id x = oid)
              (\<lambda>_. d\<lparr>a_refreshToken := None, a_updatedAt := clock env\<rparr>) (authUsers st)\<rparr>,
      [Call FindByIdAndUpdate])"
  using assms
  by (simp add: removeRefreshTokenById_def AuthUser_findByIdAndUpdate_def normalize_or_null_def
        Let_def)

lemma clear_not_found:
  assumes "toObjectId env ident = None \<or> unavailable env FindByIdAndUpdate
     \<or> (\<exists>oid. toObjectId env ident = Some oid \<and> find (\<lambda>x. a_id x = oid) (authUsers st) = None)"
  shows "fst (snd (removeRefreshTokenById env st ident)) = st"
  using assms
  by (auto simp: removeRefreshTokenById_def AuthUser_findByIdAndUpdate_def normalize_or_null_def
        Let_def split: option.splits)

lemma clear_never_rejects: "fst (removeRefreshTokenById env st ident) \<noteq> Rejected err"
  by (simp add: removeRefreshTokenById_def split: sum.splits prod.splits)

lemma clear_twice:
  "fst (snd (removeRefreshTokenById (env\<lparr>clock := t\<rparr>)
               (fst (snd (removeRefreshTokenById env st ident))) ident))
   = fst (snd (removeRefreshTokenById (env\<lparr>clock := t\<rparr>) st ident))"
proof (cases "toObjectId env ident")
  case None
  then show ?thesis by (simp add: clear_not_found)
next
  case (Some oid)
  show ?thesis
  proof (cases "unavailable env FindByIdAndUpdate")
    case True
    then show ?thesis by (simp add: clear_not_found)
  next
    case False
    show ?thesis
    proof (cases "find (\<lambda>x. a_id x = oid) (authUsers st)")
      case None
      with Some show ?thesis by (simp add: clear_not_found)
    next
      case found: (Some d)
      let ?d1 = "d\<lparr>a_refreshToken := None, a_updatedAt := clock env\<rparr>"
      let ?d2 = "d\<lparr>a_refreshToken := None, a_updatedAt := t\<rparr>"
      let ?st1 = "st\<lparr>authUsers := update_first (\<lambda>x. a_id x = oid) (\<lambda>_. ?d1) (authUsers st)\<rparr>"
      let ?st2 = "st\<lparr>authUsers := update_first (\<lambda>x. a_id x = oid) (\<lambda>_. ?d2) (authUsers st)\<rparr>"
      have ident: "a_id d = oid" using find_Some_holds [OF found] .
      have first: "removeRefreshTokenById env st ident =
          (Resolved (Some (normalize (lean ?d1))), ?st1, [Call FindByIdAndUpdate])"
        using clear_found [OF Some False found] .
      have found1: "find (\<lambda>x. a_id x = oid) (authUsers ?st1) = Some ?d1"
        using found ident by (simp add: find_update_first)
      have later: "toObjectId (env\<lparr>clock := t\<rparr>) ident = Some oid"
        "\<not> unavailable (env\<lparr>clock := t\<rparr>) FindByIdAndUpdate"
        using Some False by simp_all
      have second: "fst (snd (removeRefreshTokenById (env\<lparr>clock := t\<rparr>) ?st1 ident)) = ?st2"
        using clear_found [OF later found1] ident by (simp add: update_first_twice)
      have once: "fst (snd (removeRefreshTokenById (env\<lparr>clock := t\<rparr>) st ident)) = ?st2"
        using clear_found [OF later found] by simp
      show ?thesis using first second once by simp
    qed
  qed
qed

text \<open>
  Claim C4. Clearing the refresh token is idempotent. On an account whose refresh token
  is already \<open>null\<close> the call succeeds: it returns the account, with \<open>refreshToken\<close>
  \<open>null\<close>, logs no error, and changes nothing of the stored account but \<open>updatedAt\<close>.
  For every id, clearing twice leaves the store as clearing once does; when the second
  call is made at another time \<open>t\<close>, the store is the one a single call at \<open>t\<close> leaves.
  No id makes the call throw.
\<close>

theorem removeRefreshTokenById_idempotent:
  "(toObjectId env ident = Some oid \<and> \<not> unavailable env FindByIdAndUpdate
      \<and> find (\<lambda>x. a_id x = oid) (authUsers st) = Some d \<and> a_refreshToken d = None
    \<longrightarrow> removeRefreshTokenById env st ident =
          (Resolved (Some (normalize (lean (d\<lparr>a_updatedAt := clock env\<rparr>)))),
           st\<lparr>authUsers := update_first (\<lambda>x. a_id x = oid) (\<lambda>_. d\<lparr>a_updatedAt := clock env\<rparr>)
                              (authUsers st)\<rparr>,
           [Call FindByIdAndUpdate])
        \<and> prop_of (normalize (lean (d\<lparr>a_updatedAt := clock env\<rparr>))) ''refreshToken'' = JNull)
   \<and> fst (snd (removeRefreshTokenById env (fst (snd (removeRefreshTokenById env st ident))) ident))
     = fst (snd (removeRefreshTokenById env st ident))
   \<and> fst (snd (removeRefreshTokenById (env\<lparr>clock := t\<rparr>)
                 (fst (snd (removeRefreshTokenById env st ident))) ident))
     = fst (snd (removeRefreshTokenById (env\<lparr>clock := t\<rparr>) st ident))
   \<and> (\<forall>err. fst (removeRefreshTokenById env st ident) \<noteq> Rejected err)"
proof (intro conjI impI allI)
  assume h: "toObjectId env ident = Some oid \<and> \<not> unavailable env FindByIdAndUpdate
      \<and> find (\<lambda>x. a_id x = oid) (authUsers st) = Some d \<and> a_refreshToken d = None"
  then have same: "d\<lparr>a_refreshToken := None, a_updatedAt := clock env\<rparr> = d\<lparr>a_updatedAt := clock env\<rparr>"
    by simp
  from h have "removeRefreshTokenById env st ident =
     (Resolved (Some (normalize (lean (d\<lparr>a_refreshToken := None, a_updatedAt := clock env\<rparr>)))),
      st\<lparr>authUsers := update_first (\<lambda>x. a_id x = oid)
              (\<lambda>_. d\<lparr>a_refreshToken := None, a_updatedAt := clock env\<rparr>) (authUsers st)\<rparr>,
      [Call FindByIdAndUpdate])"
    by (intro clear_found) simp_all
  then show "removeRefreshTokenById env st ident =
          (Resolved (Some (normalize (lean (d\<lparr>a_updatedAt := clock env\<rparr>)))),
           st\<lparr>authUsers := update_first (\<lambda>x. a_id x = oid) (\<lambda>_. d\<lparr>a_updatedAt := clock env\<rparr>)
                              (authUsers st)\<rparr>,
           [Call FindByIdAndUpdate])"
    unfolding same .
  from h show "prop_of (normalize (lean (d\<lparr>a_updatedAt := clock env\<rparr>))) ''refreshToken'' = JNull"
    by (simp add: prop_of_def normalize_def lean_def nullish_def)
next
  show "fst (snd (removeRefreshTokenById env (fst (snd (removeRefreshTokenById env st ident))) ident))
     = fst (snd (removeRefreshTokenById env st ident))"
    using clear_twice [where env = env and t = "clock env" and st = st and ident = ident] by simp
next
  show "fst (snd (removeRefreshTokenById (env\<lparr>clock := t\<rparr>)
                 (fst (snd (removeRefreshTokenById env st ident))) ident))
     = fst (snd (removeRefreshTokenById (env\<lparr>clock := t\<rparr>) st ident))"
    by (rule clear_twice)
next
  fix err
  show "fst (removeRefreshTokenById env st ident) \<noteq> Rejected err"
    by (rule clear_never_rejects)
qed

text \<open>
  On the example store: bob has no refresh token; clearing it returns bob and moves
  only \<open>updatedAt\<close>, and a second clearing leaves the store of the first.
\<close>

theorem removeRefreshTokenById_idempotent_witness:
  "a_refreshToken bob = None
   \<and> removeRefreshTokenById exampleEnv exampleStore ''65f0000000000000000000a2'' =
       (Resolved (Some
          [ (''id'', JString ''65f0000000000000000000a2''), (''username'', JString ''bob''),
            (''email'', JString ''bob@x.com''), (''password'', JString ''hashB''),
            (''role'', JString ''user''), (''status'', JString ''active''),
            (''isVerified'', JBoolean False), (''refreshToken'', JNull),
            (''createdAt'', JDate 30), (''updatedAt'', JDate 100) ]),
        exampleStore\<lparr>authUsers := [alice, bob\<lparr>a_updatedAt := 100\<rparr>]\<rparr>,
        [Call FindByIdAndUpdate])
   \<and> fst (snd (removeRefreshTokenById exampleEnv
                 (exampleStore\<lparr>authUsers := [alice, bob\<lparr>a_updatedAt := 100\<rparr>]\<rparr>)
                 ''65f0000000000000000000a2''))
     = exampleStore\<lparr>authUsers := [alice, bob\<lparr>a_updatedAt := 100\<rparr>]\<rparr>"
proof -
  let ?ident = "''65f0000000000000000000a2''"
  have h: "toObjectId exampleEnv ?ident = Some ?ident \<and> \<not> unavailable exampleEnv FindByIdAndUpdate
      \<and> find (\<lambda>x. a_id x = ?ident) (authUsers exampleStore) = Some bob \<and> a_refreshToken bob = None"
    by (simp add: exampleEnv_def exampleStore_def alice_def bob_def isHexDigit_def
          toLowerCase_def toLowerChar_def)
  note inst = removeRefreshTokenById_idempotent
    [where env = exampleEnv and ident = ?ident and oid = ?ident and st = exampleStore and d = bob
       and t = 100]
  from inst h have one: "removeRefreshTokenById exampleEnv exampleStore ?ident =
          (Resolved (Some (normalize (lean (bob\<lparr>a_updatedAt := clock exampleEnv\<rparr>)))),
           exampleStore\<lparr>authUsers := update_first (\<lambda>x. a_id x = ?ident)
              (\<lambda>_. bob\<lparr>a_updatedAt := clock exampleEnv\<rparr>) (authUsers exampleStore)\<rparr>,
           [Call FindByIdAndUpdate])"
    by blast
  have st: "exampleStore\<lparr>authUsers := update_first (\<lambda>x. a_id x = ?ident)
              (\<lambda>_. bob\<lparr>a_updatedAt := clock exampleEnv\<rparr>) (authUsers exampleStore)\<rparr>
      = exampleStore\<lparr>authUsers := [alice, bob\<lparr>a_updatedAt := 100\<rparr>]\<rparr>"
    by (simp add: exampleEnv_def exampleStore_def alice_def bob_def)
  have ent: "normalize (lean (bob\<lparr>a_updatedAt := clock exampleEnv\<rparr>)) =
          [ (''id'', JString ''65f0000000000000000000a2''), (''username'', JString ''bob''),
            (''email'', JString ''bob@x.com''), (''password'', JString ''hashB''),
            (''role'', JString ''user''), (''status'', JString ''active''),
            (''isVerified'', JBoolean False), (''refreshToken'', JNull),
            (''createdAt'', JDate 30), (''updatedAt'', JDate 100) ]"
    by (simp add: normalize_def lean_def nullish_def bob_def exampleEnv_def)
  from inst have "fst (snd (removeRefreshTokenById exampleEnv
        (fst (snd (removeRefreshTokenById exampleEnv exampleStore ?ident))) ?ident))
     = fst (snd (removeRefreshTokenById exampleEnv exampleStore ?ident))"
    by blast
  with one st ent h show ?thesis by simp
qed

section \<open>Looking up by id\<close>

text \<open>
  Claim C8. For every string that is not a well-formed object id, \<open>findById\<close> returns
  the not-found result \<open>null\<close> without a call to the store (so also when the store
  cannot be reached) and without logging; and for every string whatever, \<open>findById\<close>
  returns (its promise never rejects) and leaves the store as it is.
\<close>

theorem findById_invalid_id:
  "(\<not> ObjectId_isValid env ident \<longrightarrow> findById env st ident = (Resolved None, st, []))
   \<and> (\<exists>result effects. findById env st ident = (Resolved result, st, effects))"
  by (simp add: findById_def split: sum.splits)

text \<open>
  On the example store: an id that is no object id, with every call of the store
  failing.
\<close>

theorem findById_invalid_id_witness:
  "\<not> ObjectId_isValid (exampleEnv\<lparr>unavailable := (\<lambda>_. True)\<rparr>) ''not-an-object-id''
   \<and> findById (exampleEnv\<lparr>unavailable := (\<lambda>_. True)\<rparr>) exampleStore ''not-an-object-id''
     = (Resolved None, exampleStore, [])"
proof -
  have h: "\<not> ObjectId_isValid (exampleEnv\<lparr>unavailable := (\<lambda>_. True)\<rparr>) ''not-an-object-id''"
    by (simp add: ObjectId_isValid_def exampleEnv_def)
  from findById_invalid_id
    [where env = "exampleEnv\<lparr>unavailable := (\<lambda>_. True)\<rparr>" and ident = "''not-an-object-id''"
       and st = exampleStore] h
  show ?thesis by blast
qed

section \<open>Looking up by username and by email\<close>

lemma find_None_list_ex: "find P xs = None \<longleftrightarrow> \<not> list_ex P xs"
  by (auto simp: find_None_iff list_ex_iff)

text \<open>
  Claim C9. The two lookups normalize differently. \<open>findByUsername\<close> queries with the
  username trimmed and in lower case: two inputs that agree after trimming and lowering
  give the same result, and an account whose stored username is that normalized form is
  found whatever the case and the surrounding white space of the input. \<open>findByEmail\<close>
  queries with the email as it is given: its result is the first account whose stored
  email equals the input, so an input that no stored email equals is not found, even
  when it differs from a stored one in case or white space only.
\<close>

theorem lookup_normalization_asymmetric:
  "(toLowerCase (trim u) = toLowerCase (trim u')
      \<longrightarrow> fst (findByUsername env st u) = fst (findByUsername env st u'))
   \<and> (\<not> unavailable env FindOne
        \<and> find (\<lambda>d. a_username d = toLowerCase (trim u)) (authUsers st) = Some d
      \<longrightarrow> fst (findByUsername env st u) = Resolved (Some (normalize (lean d))))
   \<and> fst (findByEmail env st e) =
       (if unavailable env FindOne then Resolved None
        else Resolved (normalize_or_null (find (\<lambda>d. a_email d = e) (authUsers st))))
   \<and> (\<not> list_ex (\<lambda>d. a_email d = e) (authUsers st) \<longrightarrow> fst (findByEmail env st e) = Resolved None)"
proof (intro conjI impI)
  assume "toLowerCase (trim u) = toLowerCase (trim u')"
  then show "fst (findByUsername env st u) = fst (findByUsername env st u')"
    by (simp add: findByUsername_def AuthUser_findOne_def Let_def)
next
  assume "\<not> unavailable env FindOne
        \<and> find (\<lambda>d. a_username d = toLowerCase (trim u)) (authUsers st) = Some d"
  then show "fst (findByUsername env st u) = Resolved (Some (normalize (lean d)))"
    by (simp add: findByUsername_def AuthUser_findOne_def Let_def normalize_or_null_def)
next
  show "fst (findByEmail env st e) =
       (if unavailable env FindOne then Resolved None
        else Resolved (normalize_or_null (find (\<lambda>d. a_email d = e) (authUsers st))))"
    by (simp add: findByEmail_def AuthUser_findOne_def)
next
  assume "\<not> list_ex (\<lambda>d. a_email d = e) (authUsers st)"
  then have "find (\<lambda>d. a_email d = e) (authUsers st) = None"
    by (simp add: find_None_list_ex)
  then show "fst (findByEmail env st e) = Resolved None"
    by (simp add: findByEmail_def AuthUser_findOne_def normalize_or_null_def)
qed

text \<open>
  On the example store: bob is found by a username in another case and with spaces
  around it, and not by his email in another case and with spaces around it.
\<close>

theorem lookup_normalization_asymmetric_witness:
  "toLowerCase (trim ''  BoB '') = a_username bob
   \<and> fst (findByUsername exampleEnv exampleStore ''  BoB '') = Resolved (Some (normalize (lean bob)))
   \<and> toLowerCase (trim '' Bob@X.com '') = a_email bob
   \<and> fst (findByEmail exampleEnv exampleStore '' Bob@X.com '') = Resolved None"
proof -
  have u: "toLowerCase (trim ''  BoB '') = ''bob''"
    by (simp add: toLowerCase_def trim_def toLowerChar_def isWhiteSpace_def)
  have e: "toLowerCase (trim '' Bob@X.com '') = ''bob@x.com''"
    by (simp add: toLowerCase_def trim_def toLowerChar_def isWhiteSpace_def)
  have h1: "\<not> unavailable exampleEnv FindOne
        \<and> find (\<lambda>d. a_username d = toLowerCase (trim ''  BoB '')) (authUsers exampleStore) = Some bob"
    unfolding u by (simp add: exampleEnv_def exampleStore_def alice_def bob_def)
  have h2: "\<not> list_ex (\<lambda>d. a_email d = '' Bob@X.com '') (authUsers exampleStore)"
    by (simp add: exampleStore_def alice_def bob_def)
  note inst = lookup_normalization_asymmetric
    [where env = exampleEnv and st = exampleStore and u = "''  BoB ''" and u' = "''bob''"
       and d = bob and e = "'' Bob@X.com ''"]
  from inst h1 have "fst (findByUsername exampleEnv exampleStore ''  BoB '')
      = Resolved (Some (normalize (lean bob)))"
    by blast
  moreover from inst h2 have "fst (findByEmail exampleEnv exampleStore '' Bob@X.com '') = Resolved None"
    by blast
  ultimately show ?thesis using u e by (simp add: bob_def)
qed

section \<open>The page of the listing\<close>

lemma length_limit_docs: "1 \<le> l \<Longrightarrow> int (length (limit_docs l xs)) \<le> l"
  by (simp add: limit_docs_def)

lemma limit_docs_pos: "1 \<le> l \<Longrightarrow> limit_docs l xs = take (nat l) xs"
  by (simp add: limit_docs_def)

lemma Math_ceil_div_ceiling:
  "1 \<le> l \<Longrightarrow> Math_ceil_div n l = Num \<lceil>real n / real_of_int l\<rceil>"
proof -
  assume "1 \<le> l"
  have "\<lceil>real n / real_of_int l\<rceil> = \<lceil>real_of_int (int n) / real_of_int l\<rceil>" by simp
  also have "\<dots> = - (- int n div l)" by (rule ceiling_divide_eq_div)
  finally show ?thesis using \<open>1 \<le> l\<close> by (simp add: Math_ceil_div_def)
qed

text \<open>What \<open>findAll\<close> returns when the store answers both calls.\<close>

lemma findAll_answered:
  assumes "\<not> unavailable env Find" "\<not> unavailable env CountDocuments"
    and "matching env (searchFilter (case q_search params of None \<Rightarrow> [] | Some v \<Rightarrow> v))
           (authUsers st) = Inr docs"
    and "q_page params = Some p" "q_limit params = Some l" "0 \<le> (p - 1) * l"
  shows "findAll env st params =
     (Resolved
        \<lparr> pd_data =
            map (\<lambda>d. normalize (select dashboardPaths (lean d)))
              (limit_docs l (drop (nat ((p - 1) * l))
                 (sort_docs (sortSpec (case q_sortBy params of None \<Rightarrow> ''createdAt'' | Some v \<Rightarrow> v)
                                      (case q_sortOrder params of None \<Rightarrow> ''desc'' | Some v \<Rightarrow> v))
                    docs))),
          pd_pagination =
            \<lparr> p_page = p, p_limit = l, p_total = length docs,
              p_totalPages = Math_ceil_div (length docs) l \<rparr> \<rparr>,
      st, [Call Find, Call CountDocuments])"
  using assms
  by (simp add: findAll_def Let_def AuthUser_find_def AuthUser_countDocuments_def Promise_all_def
        comp_def)

text \<open>What it returns when one of the calls fails.\<close>

lemma findAll_failed:
  assumes "Promise_all (countRejectsFirst env)
      (AuthUser_find env st (searchFilter (case q_search params of None \<Rightarrow> [] | Some v \<Rightarrow> v))
         (sortSpec (case q_sortBy params of None \<Rightarrow> ''createdAt'' | Some v \<Rightarrow> v)
                   (case q_sortOrder params of None \<Rightarrow> ''desc'' | Some v \<Rightarrow> v))
         (((case q_page params of None \<Rightarrow> 1 | Some v \<Rightarrow> v) - 1)
            * (case q_limit params of None \<Rightarrow> 10 | Some v \<Rightarrow> v))
         (case q_limit params of None \<Rightarrow> 10 | Some v \<Rightarrow> v) dashboardPaths)
      (AuthUser_countDocuments env st
         (searchFilter (case q_search params of None \<Rightarrow> [] | Some v \<Rightarrow> v))) = Inl err"
  shows "findAll env st params =
     (Resolved
        \<lparr> pd_data = [],
          pd_pagination =
            \<lparr> p_page = (case q_page params of None \<Rightarrow> 1 | Some v \<Rightarrow> v),
              p_limit = (case q_limit params of None \<Rightarrow> 10 | Some v \<Rightarrow> v),
              p_total = 0, p_totalPages = Num 0 \<rparr> \<rparr>,
      st, [Call Find, Call CountDocuments, LogError ''Error fetching auth dashboard users'' err])"
  using assms by (simp add: findAll_def Let_def)

lemma findAll_shape:
  assumes "q_page params = Some p" "q_limit params = Some l" "1 \<le> p" "1 \<le> l"
  shows "\<exists>rows n effects.
     findAll env st params =
       (Resolved \<lparr> pd_data = rows,
                   pd_pagination = \<lparr> p_page = p, p_limit = l, p_total = n,
                                     p_totalPages = Num \<lceil>real n / real_of_int l\<rceil> \<rparr> \<rparr>,
        st, effects)
     \<and> int (length rows) \<le> l"
proof (cases "Promise_all (countRejectsFirst env)
      (AuthUser_find env st (searchFilter (case q_search params of None \<Rightarrow> [] | Some v \<Rightarrow> v))
         (sortSpec (case q_sortBy params of None \<Rightarrow> ''createdAt'' | Some v \<Rightarrow> v)
                   (case q_sortOrder params of None \<Rightarrow> ''desc'' | Some v \<Rightarrow> v))
         (((case q_page params of None \<Rightarrow> 1 | Some v \<Rightarrow> v) - 1)
            * (case q_limit params of None \<Rightarrow> 10 | Some v \<Rightarrow> v))
         (case q_limit params of None \<Rightarrow> 10 | Some v \<Rightarrow> v) dashboardPaths)
      (AuthUser_countDocuments env st
         (searchFilter (case q_search params of None \<Rightarrow> [] | Some v \<Rightarrow> v)))")
  case (Inl err)
  from findAll_failed [OF Inl] assms show ?thesis by simp
next
  case (Inr r)
  obtain found n where r: "r = (found, n)" by (cases r)
  from Inr r assms have found:
    "AuthUser_find env st (searchFilter (case q_search params of None \<Rightarrow> [] | Some v \<Rightarrow> v))
         (sortSpec (case q_sortBy params of None \<Rightarrow> ''createdAt'' | Some v \<Rightarrow> v)
                   (case q_sortOrder params of None \<Rightarrow> ''desc'' | Some v \<Rightarrow> v))
         ((p - 1) * l) l dashboardPaths = Inr found"
    by (simp add: Promise_all_def split: sum.splits)
  then have "int (length found) \<le> l"
    using \<open>1 \<le> l\<close> by (auto simp: AuthUser_find_def length_limit_docs split: if_splits sum.splits)
  moreover have "findAll env st params =
       (Resolved \<lparr> pd_data = map normalize found,
                   pd_pagination = \<lparr> p_page = p, p_limit = l, p_total = n,
                                     p_totalPages = Math_ceil_div n l \<rparr> \<rparr>,
        st, [Call Find, Call CountDocuments])"
    using Inr r assms by (simp add: findAll_def Let_def)
  ultimately show ?thesis using \<open>1 \<le> l\<close> by (simp add: Math_ceil_div_ceiling)
qed

text \<open>
  Claim C6. For every query with page \<open>p \<ge> 1\<close> and limit \<open>l \<ge> 1\<close>, \<open>findAll\<close> returns
  \<open>{data, pagination: {page, limit, total, totalPages}}\<close> where \<open>page\<close> and \<open>limit\<close> are
  those of the request, \<open>data\<close> has at most \<open>l\<close> records and \<open>totalPages\<close> is the ceiling
  of \<open>total / limit\<close>. When the store answers, \<open>total\<close> is the number of matching
  records, and \<open>data\<close> is the matching records in the requested order without the first
  \<open>(p - 1) * l\<close> of them, cut after \<open>l\<close>.
\<close>

theorem findAll_pagination:
  "1 \<le> p \<and> 1 \<le> l \<and> q_page params = Some p \<and> q_limit params = Some l
   \<longrightarrow>
     (\<exists>rows n effects.
        findAll env st params =
          (Resolved \<lparr> pd_data = rows,
                      pd_pagination = \<lparr> p_page = p, p_limit = l, p_total = n,
                                        p_totalPages = Num \<lceil>real n / real_of_int l\<rceil> \<rparr> \<rparr>,
           st, effects)
        \<and> int (length rows) \<le> l)
     \<and> (\<not> unavailable env Find \<and> \<not> unavailable env CountDocuments
          \<and> matching env (searchFilter (case q_search params of None \<Rightarrow> [] | Some v \<Rightarrow> v))
                (authUsers st) = Inr docs
        \<longrightarrow>
          fst (findAll env st params) =
            Resolved
              \<lparr> pd_data =
                  map (\<lambda>d. normalize (select dashboardPaths (lean d)))
                    (take (nat l) (drop (nat ((p - 1) * l))
                       (sort_docs
                          (sortSpec (case q_sortBy params of None \<Rightarrow> ''createdAt'' | Some v \<Rightarrow> v)
                                    (case q_sortOrder params of None \<Rightarrow> ''desc'' | Some v \<Rightarrow> v))
                          docs))),
                pd_pagination =
                  \<lparr> p_page = p, p_limit = l, p_total = length docs,
                    p_totalPages = Num \<lceil>real (length docs) / real_of_int l\<rceil> \<rparr> \<rparr>)"
proof (intro impI conjI)
  assume h: "1 \<le> p \<and> 1 \<le> l \<and> q_page params = Some p \<and> q_limit params = Some l"
  then show "\<exists>rows n effects.
        findAll env st params =
          (Resolved \<lparr> pd_data = rows,
                      pd_pagination = \<lparr> p_page = p, p_limit = l, p_total = n,
                                        p_totalPages = Num \<lceil>real n / real_of_int l\<rceil> \<rparr> \<rparr>,
           st, effects)
        \<and> int (length rows) \<le> l"
    by (intro findAll_shape) simp_all
  assume ok: "\<not> unavailable env Find \<and> \<not> unavailable env CountDocuments
          \<and> matching env (searchFilter (case q_search params of None \<Rightarrow> [] | Some v \<Rightarrow> v))
                (authUsers st) = Inr docs"
  from h have skip: "0 \<le> (p - 1) * l" by simp
  from h ok skip have "findAll env st params =
     (Resolved
        \<lparr> pd_data =
            map (\<lambda>d. normalize (select dashboardPaths (lean d)))
              (limit_docs l (drop (nat ((p - 1) * l))
                 (sort_docs (sortSpec (case q_sortBy params of None \<Rightarrow> ''createdAt'' | Some v \<Rightarrow> v)
                                      (case q_sortOrder params of None \<Rightarrow> ''desc'' | Some v \<Rightarrow> v))
                    docs))),
          pd_pagination =
            \<lparr> p_page = p, p_limit = l, p_total = length docs,
              p_totalPages = Math_ceil_div (length docs) l \<rparr> \<rparr>,
      st, [Call Find, Call CountDocuments])"
    by (intro findAll_answered) simp_all
  with h show "fst (findAll env st params) =
            Resolved
              \<lparr> pd_data =
                  map (\<lambda>d. normalize (select dashboardPaths (lean d)))
                    (take (nat l) (drop (nat ((p - 1) * l))
                       (sort_docs
                          (sortSpec (case q_sortBy params of None \<Rightarrow> ''createdAt'' | Some v \<Rightarrow> v)
                                    (case q_sortOrder params of None \<Rightarrow> ''desc'' | Some v \<Rightarrow> v))
                          docs))),
                pd_pagination =
                  \<lparr> p_page = p, p_limit = l, p_total = length docs,
                    p_totalPages = Num \<lceil>real (length docs) / real_of_int l\<rceil> \<rparr> \<rparr>"
    by (simp add: limit_docs_pos Math_ceil_div_ceiling)
qed

text \<open>
  On the example store: the second page of one record, of the accounts that match
  \<open>X\<close>, by username.
\<close>

theorem findAll_pagination_witness:
  "(1::int) \<le> 2
   \<and> fst (findAll exampleEnv exampleStore
            \<lparr> q_page = Some 2, q_limit = Some 1, q_search = Some ''X'',
              q_sortBy = Some ''username'', q_sortOrder = Some ''asc'' \<rparr>)
     = Resolved
         \<lparr> pd_data =
             [[ (''id'', JString ''65f0000000000000000000a2''), (''username'', JString ''bob''),
                (''email'', JString ''bob@x.com''), (''password'', JUndefined),
                (''role'', JString ''user''), (''status'', JString ''active''),
                (''isVerified'', JBoolean False), (''refreshToken'', JNull),
                (''createdAt'', JDate 30), (''updatedAt'', JDate 40) ]],
           pd_pagination = \<lparr> p_page = 2, p_limit = 1, p_total = 2, p_totalPages = Num 2 \<rparr> \<rparr>"
proof -
  let ?params = "\<lparr> q_page = Some 2, q_limit = Some 1, q_search = Some ''X'',
              q_sortBy = Some ''username'', q_sortOrder = Some ''asc'' \<rparr>"
  have h: "(1::int) \<le> 2 \<and> (1::int) \<le> 1 \<and> q_page ?params = Some 2 \<and> q_limit ?params = Some 1"
    by simp
  have m: "\<not> unavailable exampleEnv Find \<and> \<not> unavailable exampleEnv CountDocuments
      \<and> matching exampleEnv (searchFilter (case q_search ?params of None \<Rightarrow> [] | Some v \<Rightarrow> v))
            (authUsers exampleStore) = Inr [alice, bob]"
    by (simp add: exampleEnv_def exampleStore_def matching_def searchFilter_def trim_def
          isWhiteSpace_def toLowerCase_def toLowerChar_def alice_def bob_def)
  have rows: "map (\<lambda>d. normalize (select dashboardPaths (lean d)))
        (take (nat 1) (drop (nat ((2 - 1) * 1))
           (sort_docs (sortSpec (case q_sortBy ?params of None \<Rightarrow> ''createdAt'' | Some v \<Rightarrow> v)
                                (case q_sortOrder ?params of None \<Rightarrow> ''desc'' | Some v \<Rightarrow> v))
              [alice, bob])))
     = [[ (''id'', JString ''65f0000000000000000000a2''), (''username'', JString ''bob''),
          (''email'', JString ''bob@x.com''), (''password'', JUndefined),
          (''role'', JString ''user''), (''status'', JString ''active''),
          (''isVerified'', JBoolean False), (''refreshToken'', JNull),
          (''createdAt'', JDate 30), (''updatedAt'', JDate 40) ]]"
    by code_simp
  from findAll_pagination
    [where p = 2 and l = 1 and params = ?params and env = exampleEnv and st = exampleStore
       and docs = "[alice, bob]"] h m
  have "fst (findAll exampleEnv exampleStore ?params) =
      Resolved
        \<lparr> pd_data =
            map (\<lambda>d. normalize (select dashboardPaths (lean d)))
              (take (nat 1) (drop (nat ((2 - 1) * 1))
                 (sort_docs (sortSpec (case q_sortBy ?params of None \<Rightarrow> ''createdAt'' | Some v \<Rightarrow> v)
                                      (case q_sortOrder ?params of None \<Rightarrow> ''desc'' | Some v \<Rightarrow> v))
                    [alice, bob]))),
          pd_pagination =
            \<lparr> p_page = 2, p_limit = 1, p_total = length [alice, bob],
              p_totalPages = Num \<lceil>real (length [alice, bob]) / real_of_int 1\<rceil> \<rparr> \<rparr>"
    by blast
  then show ?thesis unfolding rows by simp
qed

section \<open>The order of the listing\<close>

lemma sort_key_ascending: "sorted_wrt (\<lambda>a b. f a \<le> f b) (sort_key f xs)"
  using sorted_sort_key [of f xs] by (simp add: sorted_map)

lemma sort_key_descending: "sorted_wrt (\<lambda>a b. f b \<le> f a) (rev (sort_key f (rev xs)))"
  using sort_key_ascending [of f "rev xs"] by (simp add: sorted_wrt_rev)

lemma sorted_limit_drop: "sorted_wrt R xs \<Longrightarrow> sorted_wrt R (limit_docs l (drop n xs))"
  by (simp add: limit_docs_def)

lemma sortSpec_fallback:
  "sortBy \<notin> set allowedSortFields \<Longrightarrow> sortSpec sortBy sortOrder = sortSpec ''createdAt'' sortOrder"
  by (simp add: sortSpec_def allowedSortFields_def)

lemma sortSpec_descending:
  "sortOrder \<noteq> ''asc'' \<Longrightarrow> sortSpec sortBy sortOrder = sortSpec sortBy ''desc''"
  by (simp add: sortSpec_def)

text \<open>
  The records of a listing are the store's documents in the order of the sort, cut to
  the page (or none, when the store failed), each seen through the projection and
  \<open>normalize\<close>.
\<close>

lemma findAll_rows:
  "\<exists>rows pg effects.
     findAll env st params =
       (Resolved \<lparr> pd_data = map (\<lambda>d. normalize (select dashboardPaths (lean d))) rows,
                   pd_pagination = pg \<rparr>, st, effects)
     \<and> (rows = []
        \<or> (\<exists>docs n. rows =
              limit_docs (case q_limit params of None \<Rightarrow> 10 | Some v \<Rightarrow> v)
                (drop n
                   (sort_docs
                      (sortSpec (case q_sortBy params of None \<Rightarrow> ''createdAt'' | Some v \<Rightarrow> v)
                                (case q_sortOrder params of None \<Rightarrow> ''desc'' | Some v \<Rightarrow> v))
                      docs))))"
proof (cases "Promise_all (countRejectsFirst env)
      (AuthUser_find env st (searchFilter (case q_search params of None \<Rightarrow> [] | Some v \<Rightarrow> v))
         (sortSpec (case q_sortBy params of None \<Rightarrow> ''createdAt'' | Some v \<Rightarrow> v)
                   (case q_sortOrder params of None \<Rightarrow> ''desc'' | Some v \<Rightarrow> v))
         (((case q_page params of None \<Rightarrow> 1 | Some v \<Rightarrow> v) - 1)
            * (case q_limit params of None \<Rightarrow> 10 | Some v \<Rightarrow> v))
         (case q_limit params of None \<Rightarrow> 10 | Some v \<Rightarrow> v) dashboardPaths)
      (AuthUser_countDocuments env st
         (searchFilter (case q_search params of None \<Rightarrow> [] | Some v \<Rightarrow> v)))")
  case (Inl err)
  have "findAll env st params =
     (Resolved
        \<lparr> pd_data = map (\<lambda>d. normalize (select dashboardPaths (lean d))) [],
          pd_pagination =
            \<lparr> p_page = (case q_page params of None \<Rightarrow> 1 | Some v \<Rightarrow> v),
              p_limit = (case q_limit params of None \<Rightarrow> 10 | Some v \<Rightarrow> v),
              p_total = 0, p_totalPages = Num 0 \<rparr> \<rparr>,
      st, [Call Find, Call CountDocuments, LogError ''Error fetching auth dashboard users'' err])"
    using Inl by (simp add: findAll_def Let_def)
  then show ?thesis by blast
next
  case (Inr r)
  obtain found n where r: "r = (found, n)" by (cases r)
  from Inr r obtain docs where found:
    "found = map (\<lambda>d. select dashboardPaths (lean d))
       (limit_docs (case q_limit params of None \<Rightarrow> 10 | Some v \<Rightarrow> v)
          (drop (nat (((case q_page params of None \<Rightarrow> 1 | Some v \<Rightarrow> v) - 1)
                        * (case q_limit params of None \<Rightarrow> 10 | Some v \<Rightarrow> v)))
             (sort_docs
                (sortSpec (case q_sortBy params of None \<Rightarrow> ''createdAt'' | Some v \<Rightarrow> v)
                          (case q_sortOrder params of None \<Rightarrow> ''desc'' | Some v \<Rightarrow> v))
                docs)))"
    by (auto simp: Promise_all_def AuthUser_find_def split: sum.splits if_splits)
  have "findAll env st params =
       (Resolved \<lparr> pd_data = map normalize found,
                   pd_pagination =
                     \<lparr> p_page = (case q_page params of None \<Rightarrow> 1 | Some v \<Rightarrow> v),
                       p_limit = (case q_limit params of None \<Rightarrow> 10 | Some v \<Rightarrow> v),
                       p_total = n,
                       p_totalPages =
                         Math_ceil_div n (case q_limit params of None \<Rightarrow> 10 | Some v \<Rightarrow> v) \<rparr> \<rparr>,
        st, [Call Find, Call CountDocuments])"
    using Inr r by (simp add: findAll_def Let_def)
  then show ?thesis unfolding found by (simp add: comp_def) blast
qed

lemma findAll_rows_sorted:
  assumes "\<And>docs. sorted_wrt R
      (sort_docs (sortSpec (case q_sortBy params of None \<Rightarrow> ''createdAt'' | Some v \<Rightarrow> v)
                           (case q_sortOrder params of None \<Rightarrow> ''desc'' | Some v \<Rightarrow> v)) docs)"
  shows "\<exists>rows pg effects.
     findAll env st params =
       (Resolved \<lparr> pd_data = map (\<lambda>d. normalize (select dashboardPaths (lean d))) rows,
                   pd_pagination = pg \<rparr>, st, effects)
     \<and> sorted_wrt R rows"
proof -
  from findAll_rows [of env st params] obtain rows pg effects where
    res: "findAll env st params =
       (Resolved \<lparr> pd_data = map (\<lambda>d. normalize (select dashboardPaths (lean d))) rows,
                   pd_pagination = pg \<rparr>, st, effects)"
    and rows: "rows = []
        \<or> (\<exists>docs n. rows =
              limit_docs (case q_limit params of None \<Rightarrow> 10 | Some v \<Rightarrow> v)
                (drop n
                   (sort_docs
                      (sortSpec (case q_sortBy params of None \<Rightarrow> ''createdAt'' | Some v \<Rightarrow> v)
                                (case q_sortOrder params of None \<Rightarrow> ''desc'' | Some v \<Rightarrow> v))
                      docs)))"
    by blast
  from rows have "sorted_wrt R rows"
    using assms by (auto intro: sorted_limit_drop)
  with res show ?thesis by blast
qed

lemma sort_docs_descending:
  "sorted_wrt (\<lambda>a b. a_username b \<le> a_username a) (sort_docs (sortSpec ''username'' ''desc'') docs)"
  "sorted_wrt (\<lambda>a b. a_email b \<le> a_email a) (sort_docs (sortSpec ''email'' ''desc'') docs)"
  "sorted_wrt (\<lambda>a b. a_createdAt b \<le> a_createdAt a) (sort_docs (sortSpec ''createdAt'' ''desc'') docs)"
  "sorted_wrt (\<lambda>a b. a_updatedAt b \<le> a_updatedAt a) (sort_docs (sortSpec ''updatedAt'' ''desc'') docs)"
  by (simp_all add: sort_docs_def sortSpec_def allowedSortFields_def sort_asc_def
        sort_key_descending)

lemma sort_docs_createdAt_ascending:
  "sorted_wrt (\<lambda>a b. a_createdAt a \<le> a_createdAt b) (sort_docs (sortSpec ''createdAt'' ''asc'') docs)"
  by (simp add: sort_docs_def sortSpec_def allowedSortFields_def sort_asc_def sort_key_ascending)

text \<open>
  Claim C10. When the requested \<open>sortBy\<close> is not one of \<open>username\<close>, \<open>email\<close>,
  \<open>createdAt\<close>, \<open>updatedAt\<close>, the listing is the one for \<open>sortBy = createdAt\<close>, and
  its records are in the order of \<open>createdAt\<close>. When the requested \<open>sortOrder\<close> is
  anything but \<open>asc\<close>, the listing is the one for \<open>sortOrder = desc\<close>, and its records
  descend in the field of the sort: in \<open>createdAt\<close> for a \<open>sortBy\<close> that is not allowed,
  in the field itself for each of the four that are.
\<close>

theorem findAll_sort_fallback:
  "(q_sortBy params = Some sortBy \<and> sortBy \<notin> set allowedSortFields
      \<longrightarrow> findAll env st params = findAll env st (params\<lparr>q_sortBy := Some ''createdAt''\<rparr>))
   \<and> (q_sortOrder params = Some sortOrder \<and> sortOrder \<noteq> ''asc''
      \<longrightarrow> findAll env st params = findAll env st (params\<lparr>q_sortOrder := Some ''desc''\<rparr>))
   \<and> (q_sortBy params = Some sortBy \<and> sortBy \<notin> set allowedSortFields
        \<and> q_sortOrder params = Some ''asc''
      \<longrightarrow> (\<exists>rows pg effects.
             findAll env st params =
               (Resolved \<lparr> pd_data = map (\<lambda>d. normalize (select dashboardPaths (lean d))) rows,
                           pd_pagination = pg \<rparr>, st, effects)
             \<and> sorted_wrt (\<lambda>a b. a_createdAt a \<le> a_createdAt b) rows))
   \<and> (q_sortOrder params = Some sortOrder \<and> sortOrder \<noteq> ''asc''
      \<longrightarrow> (q_sortBy params = Some sortBy \<and> sortBy \<notin> set allowedSortFields
            \<longrightarrow> (\<exists>rows pg effects.
                   findAll env st params =
                     (Resolved \<lparr> pd_data = map (\<lambda>d. normalize (select dashboardPaths (lean d))) rows,
                                 pd_pagination = pg \<rparr>, st, effects)
                   \<and> sorted_wrt (\<lambda>a b. a_createdAt b \<le> a_createdAt a) rows))
          \<and> (q_sortBy params = Some ''username''
            \<longrightarrow> (\<exists>rows pg effects.
                   findAll env st params =
                     (Resolved \<lparr> pd_data = map (\<lambda>d. normalize (select dashboardPaths (lean d))) rows,
                                 pd_pagination = pg \<rparr>, st, effects)
                   \<and> sorted_wrt (\<lambda>a b. a_username b \<le> a_username a) rows))
          \<and> (q_sortBy params = Some ''email''
            \<longrightarrow> (\<exists>rows pg effects.
                   findAll env st params =
                     (Resolved \<lparr> pd_data = map (\<lambda>d. normalize (select dashboardPaths (lean d))) rows,
                                 pd_pagination = pg \<rparr>, st, effects)
                   \<and> sorted_wrt (\<lambda>a b. a_email b \<le> a_email a) rows))
          \<and> (q_sortBy params = Some ''createdAt'' \<or> q_sortBy params = None
            \<longrightarrow> (\<exists>rows pg effects.
                   findAll env st params =
                     (Resolved \<lparr> pd_data = map (\<lambda>d. normalize (select dashboardPaths (lean d))) rows,
                                 pd_pagination = pg \<rparr>, st, effects)
                   \<and> sorted_wrt (\<lambda>a b. a_createdAt b \<le> a_createdAt a) rows))
          \<and> (q_sortBy params = Some ''updatedAt''
            \<longrightarrow> (\<exists>rows pg effects.
                   findAll env st params =
                     (Resolved \<lparr> pd_data = map (\<lambda>d. normalize (select dashboardPaths (lean d))) rows,
                                 pd_pagination = pg \<rparr>, st, effects)
                   \<and> sorted_wrt (\<lambda>a b. a_updatedAt b \<le> a_updatedAt a) rows)))"
proof (intro conjI impI)
  assume "q_sortBy params = Some sortBy \<and> sortBy \<notin> set allowedSortFields"
  then show "findAll env st params = findAll env st (params\<lparr>q_sortBy := Some ''createdAt''\<rparr>)"
    by (simp add: findAll_def Let_def sortSpec_fallback [of sortBy] cong: sum.case_cong)
next
  assume "q_sortOrder params = Some sortOrder \<and> sortOrder \<noteq> ''asc''"
  then show "findAll env st params = findAll env st (params\<lparr>q_sortOrder := Some ''desc''\<rparr>)"
    by (simp add: findAll_def Let_def sortSpec_descending [of sortOrder] cong: sum.case_cong)
next
  assume "q_sortBy params = Some sortBy \<and> sortBy \<notin> set allowedSortFields
        \<and> q_sortOrder params = Some ''asc''"
  then show "\<exists>rows pg effects.
             findAll env st params =
               (Resolved \<lparr> pd_data = map (\<lambda>d. normalize (select dashboardPaths (lean d))) rows,
                           pd_pagination = pg \<rparr>, st, effects)
             \<and> sorted_wrt (\<lambda>a b. a_createdAt a \<le> a_createdAt b) rows"
    by (intro findAll_rows_sorted) (simp add: sortSpec_fallback sort_docs_createdAt_ascending)
next
  assume order: "q_sortOrder params = Some sortOrder \<and> sortOrder \<noteq> ''asc''"
  assume "q_sortBy params = Some sortBy \<and> sortBy \<notin> set allowedSortFields"
  with order show "\<exists>rows pg effects.
             findAll env st params =
               (Resolved \<lparr> pd_data = map (\<lambda>d. normalize (select dashboardPaths (lean d))) rows,
                           pd_pagination = pg \<rparr>, st, effects)
             \<and> sorted_wrt (\<lambda>a b. a_createdAt b \<le> a_createdAt a) rows"
    by (intro findAll_rows_sorted)
      (simp add: sortSpec_fallback sortSpec_descending [of sortOrder] sort_docs_descending)
next
  assume order: "q_sortOrder params = Some sortOrder \<and> sortOrder \<noteq> ''asc''"
  assume "q_sortBy params = Some ''username''"
  with order show "\<exists>rows pg effects.
             findAll env st params =
               (Resolved \<lparr> pd_data = map (\<lambda>d. normalize (select dashboardPaths (lean d))) rows,
                           pd_pagination = pg \<rparr>, st, effects)
             \<and> sorted_wrt (\<lambda>a b. a_username b \<le> a_username a) rows"
    by (intro findAll_rows_sorted) (simp add: sortSpec_descending [of sortOrder] sort_docs_descending)
next
  assume order: "q_sortOrder params = Some sortOrder \<and> sortOrder \<noteq> ''asc''"
  assume "q_sortBy params = Some ''email''"
  with order show "\<exists>rows pg effects.
             findAll env st params =
               (Resolved \<lparr> pd_data = map (\<lambda>d. normalize (select dashboardPaths (lean d))) rows,
                           pd_pagination = pg \<rparr>, st, effects)
             \<and> sorted_wrt (\<lambda>a b. a_email b \<le> a_email a) rows"
    by (intro findAll_rows_sorted) (simp add: sortSpec_descending [of sortOrder] sort_docs_descending)
next
  assume order: "q_sortOrder params = Some sortOrder \<and> sortOrder \<noteq> ''asc''"
  assume "q_sortBy params = Some ''createdAt'' \<or> q_sortBy params = None"
  with order show "\<exists>rows pg effects.
             findAll env st params =
               (Resolved \<lparr> pd_data = map (\<lambda>d. normalize (select dashboardPaths (lean d))) rows,
                           pd_pagination = pg \<rparr>, st, effects)
             \<and> sorted_wrt (\<lambda>a b. a_createdAt b \<le> a_createdAt a) rows"
    by (intro findAll_rows_sorted)
      (auto simp: sortSpec_descending [of sortOrder] sort_docs_descending)
next
  assume order: "q_sortOrder params = Some sortOrder \<and> sortOrder \<noteq> ''asc''"
  assume "q_sortBy params = Some ''updatedAt''"
  with order show "\<exists>rows pg effects.
             findAll env st params =
               (Resolved \<lparr> pd_data = map (\<lambda>d. normalize (select dashboardPaths (lean d))) rows,
                           pd_pagination = pg \<rparr>, st, effects)
             \<and> sorted_wrt (\<lambda>a b. a_updatedAt b \<le> a_updatedAt a) rows"
    by (intro findAll_rows_sorted) (simp add: sortSpec_descending [of sortOrder] sort_docs_descending)
qed

text \<open>
  On the example store: a listing asked by \<open>password\<close>, in the order \<open>up\<close>, is the
  listing by \<open>createdAt\<close>, descending: bob, created at 30, before alice, created at 10.
\<close>

theorem findAll_sort_fallback_witness:
  "''password'' \<notin> set allowedSortFields
   \<and> findAll exampleEnv exampleStore
       \<lparr> q_page = None, q_limit = None, q_search = None,
         q_sortBy = Some ''password'', q_sortOrder = Some ''up'' \<rparr>
     = findAll exampleEnv exampleStore
         \<lparr> q_page = None, q_limit = None, q_search = None,
           q_sortBy = Some ''createdAt'', q_sortOrder = Some ''desc'' \<rparr>
   \<and> map (\<lambda>row. prop_of row ''createdAt'')
       (case fst (findAll exampleEnv exampleStore
                    \<lparr> q_page = None, q_limit = None, q_search = None,
                      q_sortBy = Some ''password'', q_sortOrder = Some ''up'' \<rparr>) of
          Resolved r \<Rightarrow> pd_data r | Rejected err \<Rightarrow> [])
     = [JDate 30, JDate 10]"
proof -
  let ?asked = "\<lparr> q_page = None, q_limit = None, q_search = None,
         q_sortBy = Some ''password'', q_sortOrder = Some ''up'' \<rparr>"
  let ?byCreatedAt = "\<lparr> q_page = None, q_limit = None, q_search = None,
         q_sortBy = Some ''createdAt'', q_sortOrder = Some ''up'' \<rparr>"
  let ?descending = "\<lparr> q_page = None, q_limit = None, q_search = None,
         q_sortBy = Some ''createdAt'', q_sortOrder = Some ''desc'' \<rparr>"
  have field: "''password'' \<notin> set allowedSortFields"
    by (simp add: allowedSortFields_def)
  have h1: "q_sortBy ?asked = Some ''password'' \<and> ''password'' \<notin> set allowedSortFields"
    using field by simp
  have h2: "q_sortOrder ?byCreatedAt = Some ''up'' \<and> ''up'' \<noteq> ''asc''"
    by simp
  from findAll_sort_fallback
    [where params = ?asked and sortBy = "''password''" and env = exampleEnv and st = exampleStore] h1
  have "findAll exampleEnv exampleStore ?asked
      = findAll exampleEnv exampleStore (?asked\<lparr>q_sortBy := Some ''createdAt''\<rparr>)"
    by blast
  then have one: "findAll exampleEnv exampleStore ?asked = findAll exampleEnv exampleStore ?byCreatedAt"
    by simp
  from findAll_sort_fallback
    [where params = ?byCreatedAt and sortOrder = "''up''" and env = exampleEnv and st = exampleStore] h2
  have "findAll exampleEnv exampleStore ?byCreatedAt
      = findAll exampleEnv exampleStore (?byCreatedAt\<lparr>q_sortOrder := Some ''desc''\<rparr>)"
    by blast
  then have two: "findAll exampleEnv exampleStore ?byCreatedAt = findAll exampleEnv exampleStore ?descending"
    by simp
  have rows: "map (\<lambda>row. prop_of row ''createdAt'')
       (case fst (findAll exampleEnv exampleStore ?descending) of
          Resolved r \<Rightarrow> pd_data r | Rejected err \<Rightarrow> [])
     = [JDate 30, JDate 10]"
    by code_simp
  show ?thesis using field one two rows by simp
qed

section \<open>The fields of a returned account\<close>

text \<open>
  A row of the listing: \<open>normalize\<close> of a document projected to the paths of the
  dashboard. It has the ten properties of \<open>normalize\<close>; \<open>password\<close> is \<open>undefined\<close>
  and \<open>refreshToken\<close> is \<open>null\<close>, whatever the stored account holds.
\<close>

lemma dashboard_row:
  "normalize (select dashboardPaths (lean d)) =
     [ (''id'', JString (a_id d)), (''username'', JString (a_username d)),
       (''email'', JString (a_email d)), (''password'', JUndefined),
       (''role'', JString (a_role d)), (''status'', JString (a_status d)),
       (''isVerified'', JBoolean (a_isVerified d)), (''refreshToken'', JNull),
       (''createdAt'', JDate (a_createdAt d)), (''updatedAt'', JDate (a_updatedAt d)) ]"
  by (simp add: normalize_def select_def dashboardPaths_def lean_def nullish_def Let_def)

text \<open>
  Claim C2. Every account view returned to callers has exactly the fields \<open>id\<close>,
  \<open>username\<close>, \<open>email\<close>, \<open>role\<close>, \<open>status\<close>, \<open>isVerified\<close>, \<open>createdAt\<close>,
  \<open>updatedAt\<close> and never the password hash or the refresh token. \<open>findAll\<close> asks the
  store for these fields only and returns its rows as \<open>IAuthDashboard\<close>, but it makes
  each row with \<open>normalize\<close>: on the example store the row of the listing has ten
  properties, with \<open>password\<close> (\<open>undefined\<close>) and \<open>refreshToken\<close> (\<open>null\<close>) besides the
  eight of the view. The stored hash and the stored token are not in the row.
\<close>

theorem findAll_row_has_ten_properties:
  "fst (findAll exampleEnv exampleStore
          \<lparr> q_page = None, q_limit = Some 1, q_search = None, q_sortBy = None,
            q_sortOrder = None \<rparr>)
   = Resolved
       \<lparr> pd_data =
           [[ (''id'', JString ''65f0000000000000000000a2''), (''username'', JString ''bob''),
              (''email'', JString ''bob@x.com''), (''password'', JUndefined),
              (''role'', JString ''user''), (''status'', JString ''active''),
              (''isVerified'', JBoolean False), (''refreshToken'', JNull),
              (''createdAt'', JDate 30), (''updatedAt'', JDate 40) ]],
         pd_pagination = \<lparr> p_page = 1, p_limit = 1, p_total = 2, p_totalPages = Num 2 \<rparr> \<rparr>
   \<and> Object_keys
         [ (''id'', JString ''65f0000000000000000000a2''), (''username'', JString ''bob''),
           (''email'', JString ''bob@x.com''), (''password'', JUndefined),
           (''role'', JString ''user''), (''status'', JString ''active''),
           (''isVerified'', JBoolean False), (''refreshToken'', JNull),
           (''createdAt'', JDate 30), (''updatedAt'', JDate 40) ]
     = [ ''id'', ''username'', ''email'', ''password'', ''role'', ''status'', ''isVerified'',
         ''refreshToken'', ''createdAt'', ''updatedAt'' ]
   \<and> set [ ''id'', ''username'', ''email'', ''password'', ''role'', ''status'', ''isVerified'',
           ''refreshToken'', ''createdAt'', ''updatedAt'' ]
     \<noteq> set [ ''id'', ''username'', ''email'', ''role'', ''status'', ''isVerified'',
             ''createdAt'', ''updatedAt'' ]"
  by code_simp

section \<open>How a failure of the store is reported\<close>

lemma AuthUser_create_duplicate:
  assumes "\<not> unavailable env AuthUserCreate"
    and "list_ex (\<lambda>x. a_username x = e_username d) (authUsers st)
         \<or> list_ex (\<lambda>x. a_email x = e_email d) (authUsers st)"
  shows "\<exists>k. AuthUser_create env st d = Inl (DuplicateKey k)"
  using assms by (auto simp: AuthUser_create_def)

text \<open>The four ways \<open>create\<close> fails.\<close>

lemma create_session_failed:
  assumes "unavailable env StartSession"
  shows "create env st d = (Rejected (Unavailable StartSession), st, [Call StartSession])"
  using assms by (simp add: create_def)

lemma create_credential_failed:
  assumes "\<not> unavailable env StartSession" and "AuthUser_create env st d = Inl err"
  shows "create env st d =
     (Resolved None, st,
      [Call StartSession, Call AuthUserCreate, Call AbortTransaction,
       LogError ''Failed to create auth + user transaction'' err])"
  using assms by (simp add: create_def create_catch_def)

lemma create_profile_failed:
  assumes "\<not> unavailable env StartSession" and "AuthUser_create env st d = Inr (auth, st1)"
    and "User_create env st1 (newProfile auth d) = Inl err"
  shows "create env st d =
     (Resolved None, st,
      [Call StartSession, Call AuthUserCreate, Call UserCreate, Call AbortTransaction,
       LogError ''Failed to create auth + user transaction'' err])"
  using assms by (simp add: create_def create_catch_def)

lemma create_commit_failed:
  assumes "\<not> unavailable env StartSession" and "AuthUser_create env st d = Inr (auth, st1)"
    and "User_create env st1 (newProfile auth d) = Inr st2"
    and "unavailable env CommitTransaction"
  shows "create env st d =
     (Rejected (TransactionError ''Cannot call abortTransaction after calling commitTransaction''),
      st,
      [Call StartSession, Call AuthUserCreate, Call UserCreate, Call CommitTransaction,
       Call AbortTransaction])"
  using assms by (simp add: create_def)

text \<open>
  When one of the two calls of \<open>findAll\<close> fails, the listing is the empty page, and the
  error in the log is that of a call that failed.
\<close>

lemma findAll_one_failed:
  assumes "AuthUser_find env st (searchFilter (case q_search params of None \<Rightarrow> [] | Some v \<Rightarrow> v))
         (sortSpec (case q_sortBy params of None \<Rightarrow> ''createdAt'' | Some v \<Rightarrow> v)
                   (case q_sortOrder params of None \<Rightarrow> ''desc'' | Some v \<Rightarrow> v))
         (((case q_page params of None \<Rightarrow> 1 | Some v \<Rightarrow> v) - 1)
            * (case q_limit params of None \<Rightarrow> 10 | Some v \<Rightarrow> v))
         (case q_limit params of None \<Rightarrow> 10 | Some v \<Rightarrow> v) dashboardPaths = Inl e
     \<or> AuthUser_countDocuments env st
         (searchFilter (case q_search params of None \<Rightarrow> [] | Some v \<Rightarrow> v)) = Inl e"
  shows "\<exists>err.
     (AuthUser_find env st (searchFilter (case q_search params of None \<Rightarrow> [] | Some v \<Rightarrow> v))
         (sortSpec (case q_sortBy params of None \<Rightarrow> ''createdAt'' | Some v \<Rightarrow> v)
                   (case q_sortOrder params of None \<Rightarrow> ''desc'' | Some v \<Rightarrow> v))
         (((case q_page params of None \<Rightarrow> 1 | Some v \<Rightarrow> v) - 1)
            * (case q_limit params of None \<Rightarrow> 10 | Some v \<Rightarrow> v))
         (case q_limit params of None \<Rightarrow> 10 | Some v \<Rightarrow> v) dashboardPaths = Inl err
      \<or> AuthUser_countDocuments env st
         (searchFilter (case q_search params of None \<Rightarrow> [] | Some v \<Rightarrow> v)) = Inl err)
     \<and> findAll env st params =
          (Resolved
             \<lparr> pd_data = [],
               pd_pagination =
                 \<lparr> p_page = (case q_page params of None \<Rightarrow> 1 | Some v \<Rightarrow> v),
                   p_limit = (case q_limit params of None \<Rightarrow> 10 | Some v \<Rightarrow> v),
                   p_total = 0, p_totalPages = Num 0 \<rparr> \<rparr>,
           st,
           [Call Find, Call CountDocuments,
            LogError ''Error fetching auth dashboard users'' err])"
proof -
  let ?found = "AuthUser_find env st (searchFilter (case q_search params of None \<Rightarrow> [] | Some v \<Rightarrow> v))
         (sortSpec (case q_sortBy params of None \<Rightarrow> ''createdAt'' | Some v \<Rightarrow> v)
                   (case q_sortOrder params of None \<Rightarrow> ''desc'' | Some v \<Rightarrow> v))
         (((case q_page params of None \<Rightarrow> 1 | Some v \<Rightarrow> v) - 1)
            * (case q_limit params of None \<Rightarrow> 10 | Some v \<Rightarrow> v))
         (case q_limit params of None \<Rightarrow> 10 | Some v \<Rightarrow> v) dashboardPaths"
  let ?counted = "AuthUser_countDocuments env st
         (searchFilter (case q_search params of None \<Rightarrow> [] | Some v \<Rightarrow> v))"
  from assms obtain err where all: "Promise_all (countRejectsFirst env) ?found ?counted = Inl err"
    and one: "?found = Inl err \<or> ?counted = Inl err"
    by (cases ?found; cases ?counted) (auto simp: Promise_all_def)
  from findAll_failed [OF all] one show ?thesis by blast
qed

text \<open>
  Claim C3, as stated, fails: a registration with an email that is taken, and one whose
  insert the store refuses, both end with \<open>null\<close>, not with an error; a listing whose
  \<open>find\<close> fails ends with an empty page, and a lookup that fails with \<open>null\<close>.
\<close>

theorem store_failure_counterexample:
  "create exampleEnv exampleStore (carol\<lparr>e_email := ''bob@x.com''\<rparr>)
   = (Resolved None, exampleStore,
      [Call StartSession, Call AuthUserCreate, Call AbortTransaction,
       LogError ''Failed to create auth + user transaction'' (DuplicateKey ''email'')])
   \<and> create (exampleEnv\<lparr>unavailable := (\<lambda>op. op = AuthUserCreate)\<rparr>) exampleStore carol
   = (Resolved None, exampleStore,
      [Call StartSession, Call AuthUserCreate, Call AbortTransaction,
       LogError ''Failed to create auth + user transaction'' (Unavailable AuthUserCreate)])
   \<and> findAll (exampleEnv\<lparr>unavailable := (\<lambda>op. op = Find)\<rparr>) exampleStore
       \<lparr> q_page = None, q_limit = None, q_search = None, q_sortBy = None, q_sortOrder = None \<rparr>
   = (Resolved
        \<lparr> pd_data = [],
          pd_pagination = \<lparr> p_page = 1, p_limit = 10, p_total = 0, p_totalPages = Num 0 \<rparr> \<rparr>,
      exampleStore,
      [Call Find, Call CountDocuments,
       LogError ''Error fetching auth dashboard users'' (Unavailable Find)])
   \<and> findByEmail (exampleEnv\<lparr>unavailable := (\<lambda>op. op = FindOne)\<rparr>) exampleStore ''bob@x.com''
   = (Resolved None, exampleStore,
      [Call FindOne, LogError ''Failed to find user by email: bob@x.com'' (Unavailable FindOne)])"
  by (simp add: create_def create_catch_def AuthUser_create_def findAll_def Promise_all_def
        AuthUser_find_def AuthUser_countDocuments_def findByEmail_def AuthUser_findOne_def
        matching_def searchFilter_def trim_def
        exampleEnv_def exampleStore_def carol_def alice_def bob_def Let_def)

text \<open>
  Claim C3, amended. At the repository a failure of the store inside an operation is
  caught, with two exceptions in \<open>create\<close>. Caught means: the operation writes the
  error to the log, leaves the store as it was, and resolves to \<open>null\<close> (\<open>findAll\<close>: to
  an empty page with \<open>total\<close> 0 and \<open>totalPages\<close> 0 that repeats \<open>page\<close> and
  \<open>limit\<close>). This is so for the calls of \<open>findAll\<close>, \<open>findByEmail\<close>,
  \<open>findByUsername\<close>, \<open>findById\<close>, \<open>removeRefreshTokenById\<close>, \<open>updateById\<close> and
  \<open>deleteById\<close>, and for the two inserts of \<open>create\<close>; a username or an email that is
  taken makes \<open>create\<close> end with the same \<open>null\<close> as any other failed insert, and the
  kind of the error is in the log line only. The exceptions: when the session cannot be
  started, and when the commit fails, the promise of \<open>create\<close> rejects (with the
  store's error, and with the driver's refusal to abort after a commit), nothing is
  logged, and the store is as it was.
\<close>

theorem store_failure_is_null:
  "(\<not> unavailable env StartSession \<and> AuthUser_create env st d = Inl err
    \<longrightarrow> create env st d =
          (Resolved None, st,
           [Call StartSession, Call AuthUserCreate, Call AbortTransaction,
            LogError ''Failed to create auth + user transaction'' err]))
   \<and> (\<not> unavailable env StartSession \<and> \<not> unavailable env AuthUserCreate
        \<and> (list_ex (\<lambda>x. a_username x = e_username d) (authUsers st)
             \<or> list_ex (\<lambda>x. a_email x = e_email d) (authUsers st))
    \<longrightarrow> (\<exists>k. create env st d =
            (Resolved None, st,
             [Call StartSession, Call AuthUserCreate, Call AbortTransaction,
              LogError ''Failed to create auth + user transaction'' (DuplicateKey k)])))
   \<and> (\<not> unavailable env StartSession \<and> AuthUser_create env st d = Inr (auth, st1)
        \<and> User_create env st1 (newProfile auth d) = Inl err
    \<longrightarrow> create env st d =
          (Resolved None, st,
           [Call StartSession, Call AuthUserCreate, Call UserCreate, Call AbortTransaction,
            LogError ''Failed to create auth + user transaction'' err]))
   \<and> (unavailable env StartSession
    \<longrightarrow> create env st d = (Rejected (Unavailable StartSession), st, [Call StartSession]))
   \<and> (\<not> unavailable env StartSession \<and> AuthUser_create env st d = Inr (auth, st1)
        \<and> User_create env st1 (newProfile auth d) = Inr st2
        \<and> unavailable env CommitTransaction
    \<longrightarrow> create env st d =
          (Rejected
             (TransactionError ''Cannot call abortTransaction after calling commitTransaction''),
           st,
           [Call StartSession, Call AuthUserCreate, Call UserCreate, Call CommitTransaction,
            Call AbortTransaction]))
   \<and> (AuthUser_find env st (searchFilter (case q_search params of None \<Rightarrow> [] | Some v \<Rightarrow> v))
          (sortSpec (case q_sortBy params of None \<Rightarrow> ''createdAt'' | Some v \<Rightarrow> v)
                    (case q_sortOrder params of None \<Rightarrow> ''desc'' | Some v \<Rightarrow> v))
          (((case q_page params of None \<Rightarrow> 1 | Some v \<Rightarrow> v) - 1)
             * (case q_limit params of None \<Rightarrow> 10 | Some v \<Rightarrow> v))
          (case q_limit params of None \<Rightarrow> 10 | Some v \<Rightarrow> v) dashboardPaths = Inl err
        \<or> AuthUser_countDocuments env st
             (searchFilter (case q_search params of None \<Rightarrow> [] | Some v \<Rightarrow> v)) = Inl err
    \<longrightarrow> (\<exists>logged.
           (AuthUser_find env st (searchFilter (case q_search params of None \<Rightarrow> [] | Some v \<Rightarrow> v))
              (sortSpec (case q_sortBy params of None \<Rightarrow> ''createdAt'' | Some v \<Rightarrow> v)
                        (case q_sortOrder params of None \<Rightarrow> ''desc'' | Some v \<Rightarrow> v))
              (((case q_page params of None \<Rightarrow> 1 | Some v \<Rightarrow> v) - 1)
                 * (case q_limit params of None \<Rightarrow> 10 | Some v \<Rightarrow> v))
              (case q_limit params of None \<Rightarrow> 10 | Some v \<Rightarrow> v) dashboardPaths = Inl logged
            \<or> AuthUser_countDocuments env st
                 (searchFilter (case q_search params of None \<Rightarrow> [] | Some v \<Rightarrow> v)) = Inl logged)
           \<and> findAll env st params =
               (Resolved
                  \<lparr> pd_data = [],
                    pd_pagination =
                      \<lparr> p_page = (case q_page params of None \<Rightarrow> 1 | Some v \<Rightarrow> v),
                        p_limit = (case q_limit params of None \<Rightarrow> 10 | Some v \<Rightarrow> v),
                        p_total = 0, p_totalPages = Num 0 \<rparr> \<rparr>,
                st,
                [Call Find, Call CountDocuments,
                 LogError ''Error fetching auth dashboard users'' logged])))
   \<and> (AuthUser_findOne env st (\<lambda>x. a_email x = email) = Inl err
    \<longrightarrow> findByEmail env st email =
          (Resolved None, st,
           [Call FindOne, LogError (''Failed to find user by email: '' @ email) err]))
   \<and> (AuthUser_findOne env st (\<lambda>x. a_username x = toLowerCase (trim username)) = Inl err
    \<longrightarrow> findByUsername env st username =
          (Resolved None, st,
           [Call FindOne, LogError (''Failed to find user by username: '' @ username) err]))
   \<and> (ObjectId_isValid env ident \<and> AuthUser_findById env st ident = Inl err
    \<longrightarrow> findById env st ident =
          (Resolved None, st,
           [Call FindById, LogError (''Failed to find user by id: '' @ ident) err]))
   \<and> (AuthUser_findByIdAndUpdate env st ident (\<lambda>x. x\<lparr>a_refreshToken := None\<rparr>) = Inl err
    \<longrightarrow> removeRefreshTokenById env st ident =
          (Resolved None, st,
           [Call FindByIdAndUpdate,
            LogError (''Failed to remove refresh token for user id: '' @ ident) err]))
   \<and> (AuthUser_findByIdAndUpdate env st ident (set_fields data) = Inl err
    \<longrightarrow> updateById env st ident data =
          (Resolved None, st,
           [Call FindByIdAndUpdate, LogError (''Failed to update user id: '' @ ident) err]))
   \<and> (AuthUser_findByIdAndDelete env st ident = Inl err
    \<longrightarrow> deleteById env st ident =
          (Resolved None, st,
           [Call FindByIdAndDelete, LogError (''Failed to delete user id: '' @ ident) err]))"
proof (intro conjI impI)
  assume "\<not> unavailable env StartSession \<and> AuthUser_create env st d = Inl err"
  then show "create env st d =
          (Resolved None, st,
           [Call StartSession, Call AuthUserCreate, Call AbortTransaction,
            LogError ''Failed to create auth + user transaction'' err])"
    by (intro create_credential_failed) simp_all
next
  assume h: "\<not> unavailable env StartSession \<and> \<not> unavailable env AuthUserCreate
        \<and> (list_ex (\<lambda>x. a_username x = e_username d) (authUsers st)
             \<or> list_ex (\<lambda>x. a_email x = e_email d) (authUsers st))"
  then obtain k where "AuthUser_create env st d = Inl (DuplicateKey k)"
    using AuthUser_create_duplicate [of env d st] by blast
  with h have "create env st d =
            (Resolved None, st,
             [Call StartSession, Call AuthUserCreate, Call AbortTransaction,
              LogError ''Failed to create auth + user transaction'' (DuplicateKey k)])"
    by (intro create_credential_failed) simp_all
  then show "\<exists>k. create env st d =
            (Resolved None, st,
             [Call StartSession, Call AuthUserCreate, Call AbortTransaction,
              LogError ''Failed to create auth + user transaction'' (DuplicateKey k)])"
    by blast
next
  assume "\<not> unavailable env StartSession \<and> AuthUser_create env st d = Inr (auth, st1)
        \<and> User_create env st1 (newProfile auth d) = Inl err"
  then have started: "\<not> unavailable env StartSession"
    and credential: "AuthUser_create env st d = Inr (auth, st1)"
    and profile: "User_create env st1 (newProfile auth d) = Inl err"
    by simp_all
  show "create env st d =
          (Resolved None, st,
           [Call StartSession, Call AuthUserCreate, Call UserCreate, Call AbortTransaction,
            LogError ''Failed to create auth + user transaction'' err])"
    by (rule create_profile_failed [OF started credential profile])
next
  assume "unavailable env StartSession"
  then show "create env st d = (Rejected (Unavailable StartSession), st, [Call StartSession])"
    by (rule create_session_failed)
next
  assume "\<not> unavailable env StartSession \<and> AuthUser_create env st d = Inr (auth, st1)
        \<and> User_create env st1 (newProfile auth d) = Inr st2
        \<and> unavailable env CommitTransaction"
  then have started: "\<not> unavailable env StartSession"
    and credential: "AuthUser_create env st d = Inr (auth, st1)"
    and profile: "User_create env st1 (newProfile auth d) = Inr st2"
    and commit: "unavailable env CommitTransaction"
    by simp_all
  show "create env st d =
          (Rejected
             (TransactionError ''Cannot call abortTransaction after calling commitTransaction''),
           st,
           [Call StartSession, Call AuthUserCreate, Call UserCreate, Call CommitTransaction,
            Call AbortTransaction])"
    by (rule create_commit_failed [OF started credential profile commit])
next
  assume "AuthUser_find env st (searchFilter (case q_search params of None \<Rightarrow> [] | Some v \<Rightarrow> v))
          (sortSpec (case q_sortBy params of None \<Rightarrow> ''createdAt'' | Some v \<Rightarrow> v)
                    (case q_sortOrder params of None \<Rightarrow> ''desc'' | Some v \<Rightarrow> v))
          (((case q_page params of None \<Rightarrow> 1 | Some v \<Rightarrow> v) - 1)
             * (case q_limit params of None \<Rightarrow> 10 | Some v \<Rightarrow> v))
          (case q_limit params of None \<Rightarrow> 10 | Some v \<Rightarrow> v) dashboardPaths = Inl err
        \<or> AuthUser_countDocuments env st
             (searchFilter (case q_search params of None \<Rightarrow> [] | Some v \<Rightarrow> v)) = Inl err"
  then show "\<exists>logged.
           (AuthUser_find env st (searchFilter (case q_search params of None \<Rightarrow> [] | Some v \<Rightarrow> v))
              (sortSpec (case q_sortBy params of None \<Rightarrow> ''createdAt'' | Some v \<Rightarrow> v)
                        (case q_sortOrder params of None \<Rightarrow> ''desc'' | Some v \<Rightarrow> v))
              (((case q_page params of None \<Rightarrow> 1 | Some v \<Rightarrow> v) - 1)
                 * (case q_limit params of None \<Rightarrow> 10 | Some v \<Rightarrow> v))
              (case q_limit params of None \<Rightarrow> 10 | Some v \<Rightarrow> v) dashboardPaths = Inl logged
            \<or> AuthUser_countDocuments env st
                 (searchFilter (case q_search params of None \<Rightarrow> [] | Some v \<Rightarrow> v)) = Inl logged)
           \<and> findAll env st params =
               (Resolved
                  \<lparr> pd_data = [],
                    pd_pagination =
                      \<lparr> p_page = (case q_page params of None \<Rightarrow> 1 | Some v \<Rightarrow> v),
                        p_limit = (case q_limit params of None \<Rightarrow> 10 | Some v \<Rightarrow> v),
                        p_total = 0, p_totalPages = Num 0 \<rparr> \<rparr>,
                st,
                [Call Find, Call CountDocuments,
                 LogError ''Error fetching auth dashboard users'' logged])"
    by (rule findAll_one_failed)
next
  assume "AuthUser_findOne env st (\<lambda>x. a_email x = email) = Inl err"
  then show "findByEmail env st email =
          (Resolved None, st,
           [Call FindOne, LogError (''Failed to find user by email: '' @ email) err])"
    by (simp add: findByEmail_def)
next
  assume "AuthUser_findOne env st (\<lambda>x. a_username x = toLowerCase (trim username)) = Inl err"
  then show "findByUsername env st username =
          (Resolved None, st,
           [Call FindOne, LogError (''Failed to find user by username: '' @ username) err])"
    by (simp add: findByUsername_def Let_def)
next
  assume "ObjectId_isValid env ident \<and> AuthUser_findById env st ident = Inl err"
  then show "findById env st ident =
          (Resolved None, st,
           [Call FindById, LogError (''Failed to find user by id: '' @ ident) err])"
    by (simp add: findById_def)
next
  assume "AuthUser_findByIdAndUpdate env st ident (\<lambda>x. x\<lparr>a_refreshToken := None\<rparr>) = Inl err"
  then show "removeRefreshTokenById env st ident =
          (Resolved None, st,
           [Call FindByIdAndUpdate,
            LogError (''Failed to remove refresh token for user id: '' @ ident) err])"
    by (simp add: removeRefreshTokenById_def)
next
  assume "AuthUser_findByIdAndUpdate env st ident (set_fields data) = Inl err"
  then show "updateById env st ident data =
          (Resolved None, st,
           [Call FindByIdAndUpdate, LogError (''Failed to update user id: '' @ ident) err])"
    by (simp add: updateById_def)
next
  assume "AuthUser_findByIdAndDelete env st ident = Inl err"
  then show "deleteById env st ident =
          (Resolved None, st,
           [Call FindByIdAndDelete, LogError (''Failed to delete user id: '' @ ident) err])"
    by (simp add: deleteById_def)
qed

text \<open>
  On the example store: a registration under bob's username ends with \<open>null\<close>, and so
  does one whose profile cannot be written; one whose commit fails, and one that cannot
  start a session, reject; the deletion of an account by an id that is no object id
  ends with \<open>null\<close>. The store is the same after each.
\<close>

theorem store_failure_is_null_witness:
  "list_ex (\<lambda>x. a_username x = e_username (carol\<lparr>e_username := ''bob''\<rparr>)) (authUsers exampleStore)
   \<and> fst (create exampleEnv exampleStore (carol\<lparr>e_username := ''bob''\<rparr>)) = Resolved None
   \<and> fst (snd (create exampleEnv exampleStore (carol\<lparr>e_username := ''bob''\<rparr>))) = exampleStore
   \<and> create (exampleEnv\<lparr>unavailable := (\<lambda>op. op = UserCreate)\<rparr>) exampleStore carol
     = (Resolved None, exampleStore,
        [Call StartSession, Call AuthUserCreate, Call UserCreate, Call AbortTransaction,
         LogError ''Failed to create auth + user transaction'' (Unavailable UserCreate)])
   \<and> create (exampleEnv\<lparr>unavailable := (\<lambda>op. op = CommitTransaction)\<rparr>) exampleStore carol
     = (Rejected (TransactionError ''Cannot call abortTransaction after calling commitTransaction''),
        exampleStore,
        [Call StartSession, Call AuthUserCreate, Call UserCreate, Call CommitTransaction,
         Call AbortTransaction])
   \<and> create (exampleEnv\<lparr>unavailable := (\<lambda>op. op = StartSession)\<rparr>) exampleStore carol
     = (Rejected (Unavailable StartSession), exampleStore, [Call StartSession])
   \<and> AuthUser_findByIdAndDelete exampleEnv exampleStore ''42'' = Inl (CastError ''42'')
   \<and> deleteById exampleEnv exampleStore ''42''
     = (Resolved None, exampleStore,
        [Call FindByIdAndDelete, LogError ''Failed to delete user id: 42'' (CastError ''42'')])"
proof -
  let ?d = "carol\<lparr>e_username := ''bob''\<rparr>"
  let ?newCredential = "\<lparr> a_id = ''65f0000000000000000000a3'', a_username = ''carol'',
      a_email = ''carol@x.com'', a_password = ''hashC'', a_role = ''user'',
      a_status = ''active'', a_isVerified = False, a_refreshToken = None,
      a_createdAt = 100, a_updatedAt = 100 \<rparr>"
  let ?st1 = "exampleStore\<lparr>authUsers := authUsers exampleStore @ [?newCredential]\<rparr>"
  let ?st2 = "?st1\<lparr>profiles := profiles ?st1 @ [newProfile ?newCredential carol]\<rparr>"
  let ?noProfile = "exampleEnv\<lparr>unavailable := (\<lambda>op. op = UserCreate)\<rparr>"
  let ?noCommit = "exampleEnv\<lparr>unavailable := (\<lambda>op. op = CommitTransaction)\<rparr>"
  let ?noSession = "exampleEnv\<lparr>unavailable := (\<lambda>op. op = StartSession)\<rparr>"
  have h1: "\<not> unavailable exampleEnv StartSession \<and> \<not> unavailable exampleEnv AuthUserCreate
        \<and> (list_ex (\<lambda>x. a_username x = e_username ?d) (authUsers exampleStore)
             \<or> list_ex (\<lambda>x. a_email x = e_email ?d) (authUsers exampleStore))"
    by (simp add: exampleEnv_def exampleStore_def carol_def alice_def bob_def)
  have h2: "AuthUser_findByIdAndDelete exampleEnv exampleStore ''42'' = Inl (CastError ''42'')"
    by (simp add: AuthUser_findByIdAndDelete_def exampleEnv_def)
  have h3: "\<not> unavailable ?noProfile StartSession
        \<and> AuthUser_create ?noProfile exampleStore carol = Inr (?newCredential, ?st1)
        \<and> User_create ?noProfile ?st1 (newProfile ?newCredential carol)
          = Inl (Unavailable UserCreate)"
    by (simp add: AuthUser_create_def User_create_def exampleEnv_def exampleStore_def carol_def
          alice_def bob_def Let_def)
  have h4: "\<not> unavailable ?noCommit StartSession
        \<and> AuthUser_create ?noCommit exampleStore carol = Inr (?newCredential, ?st1)
        \<and> User_create ?noCommit ?st1 (newProfile ?newCredential carol) = Inr ?st2
        \<and> unavailable ?noCommit CommitTransaction"
    by (simp add: AuthUser_create_def User_create_def newProfile_def profileOf_def exampleEnv_def
          exampleStore_def carol_def alice_def bob_def Let_def)
  have h5: "unavailable ?noSession StartSession"
    by simp
  from store_failure_is_null [where env = exampleEnv and st = exampleStore and d = ?d,
      THEN conjunct2, THEN conjunct1, THEN mp, OF h1]
  obtain k where "create exampleEnv exampleStore ?d =
            (Resolved None, exampleStore,
             [Call StartSession, Call AuthUserCreate, Call AbortTransaction,
              LogError ''Failed to create auth + user transaction'' (DuplicateKey k)])"
    by (rule exE)
  moreover have "deleteById exampleEnv exampleStore ''42''
     = (Resolved None, exampleStore,
        [Call FindByIdAndDelete, LogError (''Failed to delete user id: '' @ ''42'') (CastError ''42'')])"
    by (rule store_failure_is_null
      [where env = exampleEnv and st = exampleStore and ident = "''42''"
         and err = "CastError ''42''",
       THEN conjunct2, THEN conjunct2, THEN conjunct2, THEN conjunct2, THEN conjunct2,
       THEN conjunct2, THEN conjunct2, THEN conjunct2, THEN conjunct2, THEN conjunct2,
       THEN conjunct2, THEN mp, OF h2])
  moreover have "create ?noProfile exampleStore carol
     = (Resolved None, exampleStore,
        [Call StartSession, Call AuthUserCreate, Call UserCreate, Call AbortTransaction,
         LogError ''Failed to create auth + user transaction'' (Unavailable UserCreate)])"
    by (rule store_failure_is_null
      [where env = ?noProfile and st = exampleStore and d = carol and auth = ?newCredential
         and ?st1.0 = ?st1 and err = "Unavailable UserCreate",
       THEN conjunct2, THEN conjunct2, THEN conjunct1, THEN mp, OF h3])
  moreover have "create ?noCommit exampleStore carol
     = (Rejected (TransactionError ''Cannot call abortTransaction after calling commitTransaction''),
        exampleStore,
        [Call StartSession, Call AuthUserCreate, Call UserCreate, Call CommitTransaction,
         Call AbortTransaction])"
    by (rule store_failure_is_null
      [where env = ?noCommit and st = exampleStore and d = carol and auth = ?newCredential
         and ?st1.0 = ?st1 and ?st2.0 = ?st2,
       THEN conjunct2, THEN conjunct2, THEN conjunct2, THEN conjunct2, THEN conjunct1,
       THEN mp, OF h4])
  moreover have "create ?noSession exampleStore carol
     = (Rejected (Unavailable StartSession), exampleStore, [Call StartSession])"
    by (rule store_failure_is_null
      [where env = ?noSession and st = exampleStore and d = carol,
       THEN conjunct2, THEN conjunct2, THEN conjunct2, THEN conjunct1, THEN mp, OF h5])
  moreover have "list_ex (\<lambda>x. a_username x = e_username ?d) (authUsers exampleStore)"
    by (simp add: exampleStore_def carol_def alice_def bob_def)
  ultimately show ?thesis using h2 by simp
qed

section \<open>What registration normalizes\<close>

lemma trim_idem: "trim (trim s) = trim s"
proof -
  let ?a = "dropWhile isWhiteSpace s"
  let ?b = "dropWhile isWhiteSpace (rev ?a)"
  have t: "trim s = rev ?b" by (simp add: trim_def)
  show ?thesis
  proof (cases "?b = []")
    case True
    have e: "trim [] = []" by (simp add: trim_def)
    from True t have "trim s = []" by simp
    then show ?thesis by (simp only: e)
  next
    case False
    then have a: "?a \<noteq> []" by (metis dropWhile.simps(1) rev.simps(1))
    from False have "\<not> isWhiteSpace (hd ?b)" by (rule hd_dropWhile)
    then have rear: "dropWhile isWhiteSpace ?b = ?b"
      by (simp add: dropWhile_eq_self_iff)
    from a have first: "\<not> isWhiteSpace (hd ?a)" by (rule hd_dropWhile)
    have "last ?b = last (rev ?a)"
      using False by (metis dropWhile_eq_Nil_conv last_appendR takeWhile_dropWhile_id)
    also have "\<dots> = hd ?a" using a by (simp add: last_rev)
    finally have "hd (rev ?b) = hd ?a" using False by (simp add: hd_rev)
    with first have front: "dropWhile isWhiteSpace (rev ?b) = rev ?b"
      by (simp add: dropWhile_eq_self_iff)
    show ?thesis unfolding t by (simp add: trim_def front rear)
  qed
qed

text \<open>The two facts about single characters, by the eight bits of the character.\<close>

lemma toLowerChar_idem: "toLowerChar (toLowerChar c) = toLowerChar c"
proof (cases c)
  case (Char b0 b1 b2 b3 b4 b5 b6 b7)
  then show ?thesis
    by (cases b0; cases b1; cases b2; cases b3; cases b4; cases b5; cases b6; cases b7;
        simp add: toLowerChar_def)
qed

lemma isWhiteSpace_toLowerChar: "isWhiteSpace (toLowerChar c) = isWhiteSpace c"
proof (cases c)
  case (Char b0 b1 b2 b3 b4 b5 b6 b7)
  then show ?thesis
    by (cases b0; cases b1; cases b2; cases b3; cases b4; cases b5; cases b6; cases b7;
        simp add: toLowerChar_def isWhiteSpace_def)
qed

lemma toLowerCase_idem: "toLowerCase (toLowerCase s) = toLowerCase s"
  by (simp add: toLowerCase_def toLowerChar_idem)

lemma dropWhile_toLowerCase:
  "dropWhile isWhiteSpace (toLowerCase s) = toLowerCase (dropWhile isWhiteSpace s)"
  by (induction s) (simp_all add: toLowerCase_def isWhiteSpace_toLowerChar)

lemma trim_toLowerCase: "trim (toLowerCase s) = toLowerCase (trim s)"
proof -
  have r: "rev (toLowerCase xs) = toLowerCase (rev xs)" for xs
    by (simp add: toLowerCase_def rev_map)
  show ?thesis
    by (simp add: trim_def dropWhile_toLowerCase r)
qed

lemma normal_form:
  "trim (toLowerCase (trim s)) = toLowerCase (trim s)"
  "toLowerCase (toLowerCase (trim s)) = toLowerCase (trim s)"
  by (simp_all add: trim_toLowerCase trim_idem toLowerCase_idem)

lemma parsed_username:
  assumes "z_string path register_username_checks v = ([], Some x)"
  shows "\<exists>u. v = JString u \<and> x = toLowerCase (trim u) \<and> username_regex x"
proof (cases v)
  case (JString u)
  with assms show ?thesis
    by (auto simp: z_string_def register_username_checks_def split: if_splits)
qed (use assms in \<open>simp_all add: z_string_def\<close>)

lemma parsed_email:
  assumes "z_string path register_email_checks v = ([], Some x)"
  shows "\<exists>e. v = JString e \<and> x = trim e \<and> isEmail x"
proof (cases v)
  case (JString e)
  with assms show ?thesis
    by (auto simp: z_string_def register_email_checks_def split: if_splits)
qed (use assms in \<open>simp_all add: z_string_def\<close>)

lemma registerUserSchema_accepts:
  assumes "registerUserSchema input = Inr r"
  shows "z_string [''username''] register_username_checks (prop_of input ''username'')
           = ([], Some (r_username r))
         \<and> z_string [''email''] register_email_checks (prop_of input ''email'')
           = ([], Some (r_email r))"
  using assms
  by (auto simp: registerUserSchema_def split: prod.splits list.splits option.splits)

text \<open>What \<open>create\<close> leaves in the store: the new credential, or the store as it was.\<close>

lemma create_stores:
  assumes "create env st d = (Resolved (Some account), st', effects)"
  shows "\<exists>auth. authUsers st' = authUsers st @ [auth]
           \<and> a_username auth = e_username d \<and> a_email auth = e_email d"
  using assms
  by (auto simp: create_def create_catch_def AuthUser_create_def User_create_def Let_def
      split: if_splits sum.splits prod.splits)

lemma create_fails_unchanged:
  assumes "create env st d = (r, st', effects)" "\<forall>account. r \<noteq> Resolved (Some account)"
  shows "st' = st"
  using assms
  by (auto simp: create_def create_catch_def split: if_splits sum.splits prod.splits)

lemma findByUsername_store: "fst (snd (findByUsername env st u)) = st"
  by (simp add: findByUsername_def Let_def split: sum.splits)

lemma findByEmail_store: "fst (snd (findByEmail env st e)) = st"
  by (simp add: findByEmail_def split: sum.splits)

text \<open>The two ways \<open>registerUser\<close> ends.\<close>

lemma registerUser_cases:
  "(\<exists>account st' effects auth.
      registerUser cfg env st input = (Inr (accountView account), st', effects)
      \<and> authUsers st' = authUsers st @ [auth]
      \<and> a_username auth = toLowerCase (trim (r_username input))
      \<and> a_email auth = toLowerCase (trim (r_email input)))
   \<or> (\<exists>err effects. registerUser cfg env st input = (Inl err, st, effects))"
proof -
  let ?u = "toLowerCase (trim (r_username input))"
  let ?e = "toLowerCase (trim (r_email input))"
  let ?d = "\<lparr> e_id = [], e_username = ?u, e_email = ?e,
             e_password = hashPassword cfg (r_password input),
             e_role = initialRole cfg, e_status = initialStatus cfg,
             e_isVerified = initialVerified cfg, e_refreshToken = None,
             e_createdAt = 0, e_updatedAt = 0 \<rparr>"
  obtain r1 s1 f1 where one: "findByUsername env st ?u = (r1, s1, f1)"
    by (cases "findByUsername env st ?u") auto
  with findByUsername_store [of env st ?u] have s1: "s1 = st" by simp
  obtain r2 s2 f2 where two: "findByEmail env st ?e = (r2, s2, f2)"
    by (cases "findByEmail env st ?e") auto
  with findByEmail_store [of env st ?e] have s2: "s2 = st" by simp
  obtain r3 s3 f3 where three: "create env st ?d = (r3, s3, f3)"
    by (cases "create env st ?d") auto
  show ?thesis
  proof (cases "r1 \<noteq> Resolved None \<or> r2 \<noteq> Resolved None")
    case True
    with one two s1 s2 have "registerUser cfg env st input = (Inl DuplicateAccount, st, f1 @ f2)"
      by (auto simp: registerUser_def Let_def)
    then show ?thesis by blast
  next
    case free: False
    show ?thesis
    proof (cases "\<exists>account. r3 = Resolved (Some account)")
      case True
      then obtain account where account: "r3 = Resolved (Some account)" by blast
      with one two three s1 s2 free
      have res: "registerUser cfg env st input = (Inr (accountView account), s3, f1 @ f2 @ f3)"
        by (simp add: registerUser_def Let_def)
      from create_stores [OF three [unfolded account]]
      obtain auth where "authUsers s3 = authUsers st @ [auth]"
        "a_username auth = ?u" "a_email auth = ?e"
        by auto
      with res show ?thesis by blast
    next
      case False
      then have none: "\<forall>account. r3 \<noteq> Resolved (Some account)" by blast
      from create_fails_unchanged [OF three none] have s3: "s3 = st" .
      from none one two three s1 s2 free
      have "registerUser cfg env st input = (Inl StorageFailure, s3, f1 @ f2 @ f3)"
        by (cases r3) (auto simp: registerUser_def Let_def split: option.splits)
      with s3 show ?thesis by blast
    qed
  qed
qed

text \<open>
  Claim C5. For every registration input, the username and the email are brought to a
  trimmed, lower-case form before the account is created. The schema of the request
  already trims and lowers the username, and trims the email; the service's
  \<open>registerUser\<close> trims and lowers both, and the repository's \<open>create\<close> stores what it
  is given: the credential of a registration that succeeds has the username and the
  email of the input, trimmed and in lower case, and a registration that fails stores
  nothing. So when every stored credential has a trimmed, lower-case username and email
  before a registration, every stored credential has them after it.
\<close>

theorem registration_normalizes:
  "(registerUserSchema body = Inr r
    \<longrightarrow> (\<exists>u e. prop_of body ''username'' = JString u \<and> prop_of body ''email'' = JString e
               \<and> r_username r = toLowerCase (trim u) \<and> r_email r = trim e))
   \<and> (fst (registerUser cfg env st input) = Inr view
    \<longrightarrow> (\<exists>auth. authUsers (fst (snd (registerUser cfg env st input))) = authUsers st @ [auth]
               \<and> a_username auth = toLowerCase (trim (r_username input))
               \<and> a_email auth = toLowerCase (trim (r_email input))
               \<and> trim (a_username auth) = a_username auth
               \<and> toLowerCase (a_username auth) = a_username auth
               \<and> trim (a_email auth) = a_email auth
               \<and> toLowerCase (a_email auth) = a_email auth))
   \<and> (fst (registerUser cfg env st input) = Inl err
    \<longrightarrow> fst (snd (registerUser cfg env st input)) = st)
   \<and> (list_all (\<lambda>x. trim (a_username x) = a_username x \<and> toLowerCase (a_username x) = a_username x
                      \<and> trim (a_email x) = a_email x \<and> toLowerCase (a_email x) = a_email x)
          (authUsers st)
    \<longrightarrow> list_all (\<lambda>x. trim (a_username x) = a_username x \<and> toLowerCase (a_username x) = a_username x
                        \<and> trim (a_email x) = a_email x \<and> toLowerCase (a_email x) = a_email x)
          (authUsers (fst (snd (registerUser cfg env st input)))))"
proof (intro conjI impI)
  assume "registerUserSchema body = Inr r"
  from registerUserSchema_accepts [OF this]
  show "\<exists>u e. prop_of body ''username'' = JString u \<and> prop_of body ''email'' = JString e
               \<and> r_username r = toLowerCase (trim u) \<and> r_email r = trim e"
    using parsed_username parsed_email by blast
next
  assume "fst (registerUser cfg env st input) = Inr view"
  with registerUser_cases [of cfg env st input]
  obtain account st' effects auth where
    "registerUser cfg env st input = (Inr (accountView account), st', effects)"
    "authUsers st' = authUsers st @ [auth]"
    "a_username auth = toLowerCase (trim (r_username input))"
    "a_email auth = toLowerCase (trim (r_email input))"
    by auto
  then show "\<exists>auth. authUsers (fst (snd (registerUser cfg env st input))) = authUsers st @ [auth]
               \<and> a_username auth = toLowerCase (trim (r_username input))
               \<and> a_email auth = toLowerCase (trim (r_email input))
               \<and> trim (a_username auth) = a_username auth
               \<and> toLowerCase (a_username auth) = a_username auth
               \<and> trim (a_email auth) = a_email auth
               \<and> toLowerCase (a_email auth) = a_email auth"
    by (auto simp: normal_form)
next
  assume "fst (registerUser cfg env st input) = Inl err"
  with registerUser_cases [of cfg env st input]
  show "fst (snd (registerUser cfg env st input)) = st"
    by auto
next
  assume before: "list_all (\<lambda>x. trim (a_username x) = a_username x \<and> toLowerCase (a_username x) = a_username x
                      \<and> trim (a_email x) = a_email x \<and> toLowerCase (a_email x) = a_email x)
          (authUsers st)"
  from registerUser_cases [of cfg env st input]
  show "list_all (\<lambda>x. trim (a_username x) = a_username x \<and> toLowerCase (a_username x) = a_username x
                        \<and> trim (a_email x) = a_email x \<and> toLowerCase (a_email x) = a_email x)
          (authUsers (fst (snd (registerUser cfg env st input))))"
  proof
    assume "\<exists>account st' effects auth.
      registerUser cfg env st input = (Inr (accountView account), st', effects)
      \<and> authUsers st' = authUsers st @ [auth]
      \<and> a_username auth = toLowerCase (trim (r_username input))
      \<and> a_email auth = toLowerCase (trim (r_email input))"
    then obtain account st' effects auth where
      "registerUser cfg env st input = (Inr (accountView account), st', effects)"
      "authUsers st' = authUsers st @ [auth]"
      "a_username auth = toLowerCase (trim (r_username input))"
      "a_email auth = toLowerCase (trim (r_email input))"
      by blast
    with before show ?thesis by (simp add: normal_form)
  next
    assume "\<exists>err effects. registerUser cfg env st input = (Inl err, st, effects)"
    then obtain err effects where "registerUser cfg env st input = (Inl err, st, effects)"
      by blast
    with before show ?thesis by simp
  qed
qed

text \<open>
  On the example store: the registration of \<open>Bob_1\<close> with the email
  \<open>Bob_1@X.com\<close>, spaces around both, stores \<open>bob_1\<close> and \<open>bob_1@x.com\<close>.
\<close>

theorem registration_normalizes_witness:
  "registerUserSchema
     [ (''username'', JString '' Bob_1 ''), (''email'', JString '' Bob_1@X.com ''),
       (''password'', JString ''Passw0rd!'') ]
   = Inr \<lparr> r_username = ''bob_1'', r_email = ''Bob_1@X.com'', r_password = ''Passw0rd!'' \<rparr>
   \<and> fst (registerUser exampleConfig exampleEnv exampleStore
            \<lparr> r_username = '' Bob_1 '', r_email = '' Bob_1@X.com '', r_password = ''Passw0rd!'' \<rparr>)
     = Inr [ (''id'', JString ''65f0000000000000000000a3''), (''username'', JString ''bob_1''),
             (''email'', JString ''bob_1@x.com''), (''role'', JString ''user''),
             (''status'', JString ''active''), (''isVerified'', JBoolean False),
             (''createdAt'', JDate 100), (''updatedAt'', JDate 100) ]
   \<and> authUsers (fst (snd (registerUser exampleConfig exampleEnv exampleStore
            \<lparr> r_username = '' Bob_1 '', r_email = '' Bob_1@X.com '', r_password = ''Passw0rd!'' \<rparr>)))
     = [ alice, bob,
         \<lparr> a_id = ''65f0000000000000000000a3'', a_username = ''bob_1'',
           a_email = ''bob_1@x.com'', a_password = ''hash(Passw0rd!)'', a_role = ''user'',
           a_status = ''active'', a_isVerified = False, a_refreshToken = None,
           a_createdAt = 100, a_updatedAt = 100 \<rparr> ]"
proof -
  let ?input = "\<lparr> r_username = '' Bob_1 '', r_email = '' Bob_1@X.com '', r_password = ''Passw0rd!'' \<rparr>"
  let ?view = "[ (''id'', JString ''65f0000000000000000000a3''), (''username'', JString ''bob_1''),
             (''email'', JString ''bob_1@x.com''), (''role'', JString ''user''),
             (''status'', JString ''active''), (''isVerified'', JBoolean False),
             (''createdAt'', JDate 100), (''updatedAt'', JDate 100) ]"
  have schema: "registerUserSchema
     [ (''username'', JString '' Bob_1 ''), (''email'', JString '' Bob_1@X.com ''),
       (''password'', JString ''Passw0rd!'') ]
   = Inr \<lparr> r_username = ''bob_1'', r_email = ''Bob_1@X.com'', r_password = ''Passw0rd!'' \<rparr>"
    by code_simp
  have h: "fst (registerUser exampleConfig exampleEnv exampleStore ?input) = Inr ?view"
    by code_simp
  have stored: "authUsers (fst (snd (registerUser exampleConfig exampleEnv exampleStore ?input)))
     = [ alice, bob,
         \<lparr> a_id = ''65f0000000000000000000a3'', a_username = ''bob_1'',
           a_email = ''bob_1@x.com'', a_password = ''hash(Passw0rd!)'', a_role = ''user'',
           a_status = ''active'', a_isVerified = False, a_refreshToken = None,
           a_createdAt = 100, a_updatedAt = 100 \<rparr> ]"
    by code_simp
  from registration_normalizes
    [where cfg = exampleConfig and env = exampleEnv and st = exampleStore and input = ?input
       and view = ?view] h
  obtain auth where
    "authUsers (fst (snd (registerUser exampleConfig exampleEnv exampleStore ?input)))
       = authUsers exampleStore @ [auth]"
    "a_username auth = toLowerCase (trim (r_username ?input))"
    "toLowerCase (a_email auth) = a_email auth"
    by blast
  with schema h stored show ?thesis by simp
qed

section \<open>How an account update fails\<close>

lemma find_None_no_id: "\<not> list_ex P xs \<Longrightarrow> find P xs = None"
  by (simp add: find_None_list_ex)

lemma updateById_unresolved:
  assumes "case toObjectId env ident of
             None \<Rightarrow> True
           | Some oid \<Rightarrow> \<not> list_ex (\<lambda>x. a_id x = oid) (authUsers st)"
  shows "fst (updateById env st ident data) = Resolved None
         \<and> fst (snd (updateById env st ident data)) = st"
  using assms
  by (auto simp: updateById_def AuthUser_findByIdAndUpdate_def normalize_or_null_def
        find_None_no_id split: option.splits)

lemma updateAuthSchema_empty:
  assumes "prop_of input ''username'' = JUndefined" "prop_of input ''email'' = JUndefined"
    "prop_of input ''role'' = JUndefined" "prop_of input ''status'' = JUndefined"
    "prop_of input ''isVerified'' = JUndefined" "prop_of input ''password'' = JUndefined"
  shows "updateAuthSchema UserRole AuthStatus input
         = Inl [([], ''At least one field must be provided for update.'')]"
  using assms by (simp add: updateAuthSchema_def z_optional_def)

text \<open>
  Claim C7. An update with no field fails, and so does an update of an id that does not
  resolve. With no field: the controller throws its "No update data provided" error
  (400) before it calls the service, the schema refuses the body with "At least one
  field must be provided for update.", and the service's update fails with
  \<open>NoFieldsProvided\<close>. With an id that is no object id or that no stored account has:
  the repository's \<open>updateById\<close> returns \<open>null\<close> and leaves the store as it is, and the
  service's update, and the controller over it, fail with \<open>AccountNotFound\<close>.
\<close>

theorem update_failures:
  "(req_params_id req = Some ident \<and> ident \<noteq> []
      \<and> (req_body req = None \<or> (\<exists>u. req_body req = Some u \<and> IUpdateAuth_keys u = []))
    \<longrightarrow> AuthController_updateById updateAuth req
          = Inl (Inl (ApiError ''No update data provided'' 400 BAD_REQUEST)))
   \<and> (prop_of input ''username'' = JUndefined \<and> prop_of input ''email'' = JUndefined
        \<and> prop_of input ''role'' = JUndefined \<and> prop_of input ''status'' = JUndefined
        \<and> prop_of input ''isVerified'' = JUndefined \<and> prop_of input ''password'' = JUndefined
    \<longrightarrow> updateAuthSchema UserRole AuthStatus input
          = Inl [([], ''At least one field must be provided for update.'')])
   \<and> (IUpdateAuth_keys data = []
    \<longrightarrow> updateAccount env st ident data = (Inl NoFieldsProvided, st, []))
   \<and> ((case toObjectId env ident of
          None \<Rightarrow> True
        | Some oid \<Rightarrow> \<not> list_ex (\<lambda>x. a_id x = oid) (authUsers st))
    \<longrightarrow> fst (updateById env st ident data) = Resolved None
        \<and> fst (snd (updateById env st ident data)) = st
        \<and> (IUpdateAuth_keys data \<noteq> []
           \<longrightarrow> fst (updateAccount env st ident data) = Inl AccountNotFound
               \<and> fst (snd (updateAccount env st ident data)) = st
               \<and> (ident \<noteq> []
                  \<longrightarrow> AuthController_updateById (\<lambda>i u. fst (updateAccount env st i u))
                        \<lparr> req_params_id = Some ident, req_body = Some data \<rparr>
                      = Inl (Inr AccountNotFound))))"
proof (intro conjI impI)
  assume "req_params_id req = Some ident \<and> ident \<noteq> []
      \<and> (req_body req = None \<or> (\<exists>u. req_body req = Some u \<and> IUpdateAuth_keys u = []))"
  then show "AuthController_updateById updateAuth req
          = Inl (Inl (ApiError ''No update data provided'' 400 BAD_REQUEST))"
    by (auto simp: AuthController_updateById_def)
next
  assume "prop_of input ''username'' = JUndefined \<and> prop_of input ''email'' = JUndefined
        \<and> prop_of input ''role'' = JUndefined \<and> prop_of input ''status'' = JUndefined
        \<and> prop_of input ''isVerified'' = JUndefined \<and> prop_of input ''password'' = JUndefined"
  then show "updateAuthSchema UserRole AuthStatus input
          = Inl [([], ''At least one field must be provided for update.'')]"
    by (intro updateAuthSchema_empty) simp_all
next
  assume "IUpdateAuth_keys data = []"
  then show "updateAccount env st ident data = (Inl NoFieldsProvided, st, [])"
    by (simp add: updateAccount_def)
next
  assume unresolved: "case toObjectId env ident of
          None \<Rightarrow> True
        | Some oid \<Rightarrow> \<not> list_ex (\<lambda>x. a_id x = oid) (authUsers st)"
  note null = updateById_unresolved [OF unresolved, of data]
  from null show "fst (updateById env st ident data) = Resolved None" by simp
  from null show "fst (snd (updateById env st ident data)) = st" by simp
  assume fields: "IUpdateAuth_keys data \<noteq> []"
  obtain st' effects where res: "updateById env st ident data = (Resolved None, st', effects)"
    using null by (cases "updateById env st ident data") auto
  with null have st': "st' = st" by simp
  from fields res show failed: "fst (updateAccount env st ident data) = Inl AccountNotFound"
    by (simp add: updateAccount_def)
  from fields res st' show "fst (snd (updateAccount env st ident data)) = st"
    by (simp add: updateAccount_def)
  assume "ident \<noteq> []"
  with fields failed
  show "AuthController_updateById (\<lambda>i u. fst (updateAccount env st i u))
                        \<lparr> req_params_id = Some ident, req_body = Some data \<rparr>
                      = Inl (Inr AccountNotFound)"
    by (simp add: AuthController_updateById_def)
qed

text \<open>
  On the example store: an update with an empty body, and an update of the role of an
  account that does not exist.
\<close>

theorem update_failures_witness:
  "IUpdateAuth_keys \<lparr> up_username = None, up_email = None, up_role = None, up_status = None,
                      up_isVerified = None, up_password = None \<rparr> = []
   \<and> AuthController_updateById (\<lambda>i u. fst (updateAccount exampleEnv exampleStore i u))
       \<lparr> req_params_id = Some ''65f0000000000000000000a1'',
         req_body = Some \<lparr> up_username = None, up_email = None, up_role = None,
                            up_status = None, up_isVerified = None, up_password = None \<rparr> \<rparr>
     = Inl (Inl (ApiError ''No update data provided'' 400 BAD_REQUEST))
   \<and> updateAuthSchema [''user'', ''admin''] [''active''] []
     = Inl [([], ''At least one field must be provided for update.'')]
   \<and> toObjectId exampleEnv ''65f0000000000000000000ff'' = Some ''65f0000000000000000000ff''
   \<and> \<not> list_ex (\<lambda>x. a_id x = ''65f0000000000000000000ff'') (authUsers exampleStore)
   \<and> fst (updateById exampleEnv exampleStore ''65f0000000000000000000ff''
            \<lparr> up_username = None, up_email = None, up_role = Some ''admin'', up_status = None,
              up_isVerified = None, up_password = None \<rparr>) = Resolved None
   \<and> AuthController_updateById (\<lambda>i u. fst (updateAccount exampleEnv exampleStore i u))
       \<lparr> req_params_id = Some ''65f0000000000000000000ff'',
         req_body = Some \<lparr> up_username = None, up_email = None, up_role = Some ''admin'',
                            up_status = None, up_isVerified = None, up_password = None \<rparr> \<rparr>
     = Inl (Inr AccountNotFound)"
proof -
  let ?none = "\<lparr> up_username = None, up_email = None, up_role = None, up_status = None,
                 up_isVerified = None, up_password = None \<rparr>"
  let ?role = "\<lparr> up_username = None, up_email = None, up_role = Some ''admin'', up_status = None,
                 up_isVerified = None, up_password = None \<rparr>"
  let ?alice = "''65f0000000000000000000a1''"
  let ?nobody = "''65f0000000000000000000ff''"
  have keys: "IUpdateAuth_keys ?none = []" "IUpdateAuth_keys ?role \<noteq> []"
    by (simp_all add: IUpdateAuth_keys_def)
  have h1: "req_params_id \<lparr> req_params_id = Some ?alice, req_body = Some ?none \<rparr> = Some ?alice
      \<and> ?alice \<noteq> []
      \<and> (req_body \<lparr> req_params_id = Some ?alice, req_body = Some ?none \<rparr> = None
          \<or> (\<exists>u. req_body \<lparr> req_params_id = Some ?alice, req_body = Some ?none \<rparr> = Some u
                \<and> IUpdateAuth_keys u = []))"
    using keys by simp
  have h2: "prop_of [] ''username'' = JUndefined \<and> prop_of [] ''email'' = JUndefined
        \<and> prop_of [] ''role'' = JUndefined \<and> prop_of [] ''status'' = JUndefined
        \<and> prop_of [] ''isVerified'' = JUndefined \<and> prop_of [] ''password'' = JUndefined"
    by (simp add: prop_of_def)
  have oid: "toObjectId exampleEnv ?nobody = Some ?nobody"
    by (simp add: exampleEnv_def isHexDigit_def toLowerCase_def toLowerChar_def)
  have absent: "\<not> list_ex (\<lambda>x. a_id x = ?nobody) (authUsers exampleStore)"
    by (simp add: exampleStore_def alice_def bob_def)
  have h3: "case toObjectId exampleEnv ?nobody of
          None \<Rightarrow> True
        | Some oid \<Rightarrow> \<not> list_ex (\<lambda>x. a_id x = oid) (authUsers exampleStore)"
    using oid absent by simp
  from update_failures
    [where req = "\<lparr> req_params_id = Some ?alice, req_body = Some ?none \<rparr>" and ident = ?alice
       and updateAuth = "\<lambda>i u. fst (updateAccount exampleEnv exampleStore i u)"] h1
  have one: "AuthController_updateById (\<lambda>i u. fst (updateAccount exampleEnv exampleStore i u))
       \<lparr> req_params_id = Some ?alice, req_body = Some ?none \<rparr>
     = Inl (Inl (ApiError ''No update data provided'' 400 BAD_REQUEST))"
    by blast
  from update_failures [where input = "[]" and UserRole = "[''user'', ''admin'']"
      and AuthStatus = "[''active'']"] h2
  have two: "updateAuthSchema [''user'', ''admin''] [''active''] []
     = Inl [([], ''At least one field must be provided for update.'')]"
    by blast
  note inst = update_failures
    [where env = exampleEnv and st = exampleStore and ident = ?nobody and data = ?role]
  from inst h3 have three: "fst (updateById exampleEnv exampleStore ?nobody ?role) = Resolved None"
    by blast
  have named: "?nobody \<noteq> []" by simp
  from inst h3 keys(2) named
  have four: "AuthController_updateById (\<lambda>i u. fst (updateAccount exampleEnv exampleStore i u))
       \<lparr> req_params_id = Some ?nobody, req_body = Some ?role \<rparr>
     = Inl (Inr AccountNotFound)"
    by blast
  from keys(1) one two oid absent three four show ?thesis by simp
qed

end
